theory Spec2Isabelle
  imports Complex_Main "HOL-Library.Signed_Division"
begin

section \<open>Data model\<close>

text \<open>
  The analysis core computes on C++ \<open>double\<close>s. They are idealised as \<open>real\<close>: rounding,
  the sign of zero, infinities and NaN are outside the model. Where the C++ arithmetic
  would leave the reals (a division by a zero time difference gives an infinity or a NaN)
  the model stops with \<open>NonFiniteArithmetic\<close> instead of going on with HOL's \<open>x / 0 = 0\<close>.
  The remaining errors are the exceptions of the code and the failures named in section 7
  of the specification; \<open>OutOfRange\<close> stands for a read outside a vector (undefined
  behaviour in C++) and \<open>ExternalFailure\<close> for any other exception of a function that is
  not among the sources.
\<close>

datatype error =
    InsufficientData
  | NonFiniteArithmetic
  | JsonError
  | OutOfRange
  | ZeroHeadingChange
  | ExternalFailure

text \<open>
  Modelled from the spec: \<open>PreparedData\<close> (Storage.h is not among the sources). The fields
  are those of section 3 of the specification and of the seven-value initialisers of the
  repository's filter tests. \<open>ComputeAcceleration\<close> in AnalysisManager.cpp initialises a
  point from six values (timestamp, voltage, position, velocity, acceleration, cos): that
  revision of the struct has no \<open>dt\<close>, which the model leaves at 0 there. The field \<open>cos\<close>
  is \<open>cos_field\<close> here, \<open>cos\<close> being the cosine function of HOL.
\<close>

record PreparedData =
  timestamp :: real
  voltage :: real
  position :: real
  velocity :: real
  dt :: real
  acceleration :: real
  cos_field :: real

text \<open>A raw sample is a \<open>std::array<double, S>\<close>; column 0 is the time.\<close>

type_synonym row = "real list"

section \<open>ComputeAcceleration (AnalysisManager.cpp, lines 57-86)\<close>

text \<open>
  The conversion of an \<open>int\<close> to \<open>size_t\<close> (64 bits): a negative value wraps around.
\<close>

definition size_t_of_int :: "int \<Rightarrow> nat" where
  "size_t_of_int w = (if 0 \<le> w then nat w else nat (2 ^ 64 + w))"

definition accel_at :: "nat \<Rightarrow> row list \<Rightarrow> nat \<Rightarrow> nat \<Rightarrow> real" where
  "accel_at Velocity data step i =
     ((data ! (i + step)) ! Velocity - (data ! (i - step)) ! Velocity) /
     ((data ! (i + step)) ! 0 - (data ! (i - step)) ! 0)"

definition make_prepared :: "nat \<Rightarrow> nat \<Rightarrow> nat \<Rightarrow> row \<Rightarrow> real \<Rightarrow> PreparedData" where
  "make_prepared Voltage Position Velocity pt acc =
     \<lparr>timestamp = pt ! 0, voltage = pt ! Voltage, position = pt ! Position,
      velocity = pt ! Velocity, dt = 0, acceleration = acc, cos_field = 0\<rparr>"

text \<open>
  The loop \<open>for (size_t i = step; i < data.size() - step; ++i)\<close>, with \<open>prepared\<close> as
  the vector being filled. The loop is reached with \<open>data.size() > window\<close>; for a window
  that is not negative \<open>step \<le> window\<close>, and neither \<open>data.size() - step\<close> nor \<open>i - step\<close>
  wraps around.
\<close>

function ComputeAcceleration_loop ::
  "nat \<Rightarrow> nat \<Rightarrow> nat \<Rightarrow> row list \<Rightarrow> nat \<Rightarrow> nat \<Rightarrow> PreparedData list
     \<Rightarrow> error + PreparedData list"
where
  "ComputeAcceleration_loop Voltage Position Velocity data step i prepared =
     (if i < length data - step then
        (if (data ! (i + step)) ! 0 - (data ! (i - step)) ! 0 = 0
         then Inl NonFiniteArithmetic
         else ComputeAcceleration_loop Voltage Position Velocity data step (i + 1)
                (if accel_at Velocity data step i \<noteq> 0
                 then prepared @
                        [make_prepared Voltage Position Velocity (data ! i)
                           (accel_at Velocity data step i)]
                 else prepared))
      else Inr prepared)"
  by pat_completeness auto
termination
  by (relation "measure (\<lambda>(Voltage, Position, Velocity, data, step, i, prepared).
                  length data - step - i)") auto

declare ComputeAcceleration_loop.simps [simp del]

definition ComputeAcceleration ::
  "nat \<Rightarrow> nat \<Rightarrow> nat \<Rightarrow> row list \<Rightarrow> int \<Rightarrow> error + PreparedData list"
where
  "ComputeAcceleration Voltage Position Velocity data window =
     (let step = size_t_of_int (window sdiv 2)
      in if length data \<le> size_t_of_int window then Inl InsufficientData
         else ComputeAcceleration_loop Voltage Position Velocity data step step [])"

section \<open>Datasets, settings and the manager's state\<close>

text \<open>
  \<open>Storage\<close> is the pair made by \<open>std::make_tuple(slow, fast)\<close>: the quasistatic and the
  dynamic points of a dataset. A \<open>wpi::StringMap<Storage>\<close> is a map from names.
\<close>

type_synonym Storage = "PreparedData list \<times> PreparedData list"

type_synonym datasets = "string \<rightharpoonup> Storage"

text \<open>AnalysisType.h: the struct, its five constants, and \<open>operator==\<close> on all three fields.\<close>

record AnalysisType =
  independentVariables :: nat
  rawDataSize :: nat
  name :: string

definition kDrivetrain :: AnalysisType where
  "kDrivetrain = \<lparr>independentVariables = 3, rawDataSize = 9, name = ''Drivetrain''\<rparr>"

definition kDrivetrainAngular :: AnalysisType where
  "kDrivetrainAngular =
     \<lparr>independentVariables = 3, rawDataSize = 9, name = ''Drivetrain (Angular)''\<rparr>"

definition kElevator :: AnalysisType where
  "kElevator = \<lparr>independentVariables = 4, rawDataSize = 4, name = ''Elevator''\<rparr>"

definition kArm :: AnalysisType where
  "kArm = \<lparr>independentVariables = 4, rawDataSize = 4, name = ''Arm''\<rparr>"

definition kSimple :: AnalysisType where
  "kSimple = \<lparr>independentVariables = 3, rawDataSize = 4, name = ''Simple''\<rparr>"

datatype FeedbackControllerLoopType = kPosition | kVelocity

text \<open>
  Modelled from the spec: \<open>AnalysisManager::Settings\<close> (AnalysisManager.h is not among the
  sources). The members are the options of section 3 that AnalysisManager.cpp reads or
  writes, under the names it uses. The types of \<open>preset\<close> and \<open>lqr\<close> are opaque to this
  file and are type parameters.
\<close>

record ('p, 'l) Settings =
  motionThreshold :: real
  windowSize :: int
  stepTestDuration :: real
  dataset :: nat
  type :: FeedbackControllerLoopType
  preset :: 'p
  lqr :: 'l
  convertGainsToEncTicks :: bool
  gearing :: real
  cpr :: real

text \<open>
  Modelled from the spec: \<open>FeedforwardGains\<close> (FeedbackAnalysis.h is not among the sources),
  the struct that line 550 of AnalysisManager.cpp builds from three values in this order;
  section 4.D has the feedback analysis work from \<open>Kv\<close> and \<open>Ka\<close>.
\<close>

record FeedforwardGains =
  Ks :: real
  Kv :: real
  Ka :: real

text \<open>
  The JSON document, as far as the preparation reads it: \<open>json.at(key)\<close> for the four runs.
  \<open>at\<close> throws for a missing key; \<open>get<std::vector<std::array<double, S>>>\<close> gives rows of
  \<open>S\<close> numbers. A well-formed log has rows of exactly \<open>S\<close> numbers (section 6); on any other
  the model stops with \<open>JsonError\<close>, and what the JSON library does there is not modelled.
\<close>

type_synonym json = "string \<rightharpoonup> row list"

record ('p, 'l) AnalysisManager =
  m_json :: json
  m_settings :: "('p, 'l) Settings"
  m_type :: AnalysisType
  m_unit :: string
  m_factor :: real
  m_rawDatasets :: datasets
  m_filteredDatasets :: datasets
  m_startTimes :: "real list"
  m_minDuration :: real
  m_maxDuration :: real
  m_trackWidth :: "real option"

text \<open>
  The functions that AnalysisManager.cpp calls and whose bodies are not among the sources
  (FilteringUtils, TrackWidthAnalysis, FeedforwardAnalysis, FeedbackAnalysis, and the table
  \<open>kDatasets\<close> of AnalysisManager.h). The model of the manager takes them as parameters, each
  one free to throw, under the source's name with the prefix \<open>ext_\<close>. The leading \<open>nat\<close>s
  are the template arguments (column indices). \<open>TrimStepVoltageData\<close> is given the run, the
  settings and the minimum step time by pointer or reference and may change them: it returns
  the three. \<open>ApplyMedianFilter\<close> is here the overload that takes raw rows and returns the
  filtered ones.
\<close>

record ('p, 'l) externals =
  ext_TrimQuasistaticData :: "nat \<Rightarrow> nat \<Rightarrow> row list \<Rightarrow> real \<Rightarrow> error + row list"
  ext_ApplyMedianFilter :: "nat \<Rightarrow> row list \<Rightarrow> int \<Rightarrow> error + row list"
  ext_TrimStepVoltageData ::
    "PreparedData list \<Rightarrow> ('p, 'l) Settings \<Rightarrow> real \<Rightarrow> real
       \<Rightarrow> error + (PreparedData list \<times> ('p, 'l) Settings \<times> real)"
  ext_CalculateTrackWidth :: "real \<Rightarrow> real \<Rightarrow> real \<Rightarrow> error + real"
  ext_CalculateFeedforwardGains ::
    "Storage \<Rightarrow> AnalysisType \<Rightarrow> error + (real list \<times> real \<times> real)"
  ext_CalculatePositionFeedbackGains ::
    "'p \<Rightarrow> 'l \<Rightarrow> FeedforwardGains \<Rightarrow> real \<Rightarrow> error + (real \<times> real)"
  ext_CalculateVelocityFeedbackGains ::
    "'p \<Rightarrow> 'l \<Rightarrow> FeedforwardGains \<Rightarrow> real \<Rightarrow> error + (real \<times> real)"
  ext_kDatasets :: "string list"

text \<open>An exception leaves the function: the rest is not run.\<close>

definition bindE :: "error + 'a \<Rightarrow> ('a \<Rightarrow> error + 'b) \<Rightarrow> error + 'b" where
  "bindE m f = (case m of Inl e \<Rightarrow> Inl e | Inr x \<Rightarrow> f x)"

section \<open>Helpers of AnalysisManager.cpp\<close>

text \<open>\<open>Concatenate\<close> (lines 35-45): each source vector is inserted at the end of \<open>dest\<close>.\<close>

fun Concatenate :: "PreparedData list \<Rightarrow> PreparedData list list \<Rightarrow> PreparedData list" where
  "Concatenate dest [] = dest"
| "Concatenate dest (src # srcs) = Concatenate (dest @ src) srcs"

text \<open>
  \<open>CalculateCosine\<close> (lines 94-105): the cosine of the position, in the unit named; a unit
  that is none of the three names takes no branch.
\<close>

definition CalculateCosine :: "PreparedData list \<Rightarrow> string \<Rightarrow> PreparedData list" where
  "CalculateCosine data unit =
     map (\<lambda>pt.
            if unit = ''Radians'' then pt\<lparr>cos_field := cos (position pt)\<rparr>
            else if unit = ''Degrees'' then pt\<lparr>cos_field := cos (position pt * pi / 180)\<rparr>
            else if unit = ''Rotations'' then pt\<lparr>cos_field := cos (position pt * 2 * pi)\<rparr>
            else pt)
       data"

text \<open>
  The local \<open>wpi::StringMap<std::vector<Data>> data\<close>. \<open>data[key]\<close> is the vector stored
  under \<open>key\<close>, an empty one where the key is new.
\<close>

type_synonym rundata = "string \<rightharpoonup> row list"

definition run_of :: "rundata \<Rightarrow> string \<Rightarrow> row list" where
  "run_of data key = (case data key of None \<Rightarrow> [] | Some rows \<Rightarrow> rows)"

text \<open>
  \<open>GetMaxTime\<close> (lines 107-114). \<open>back()\<close> and \<open>[0]\<close> of an empty vector are undefined
  behaviour, here \<open>OutOfRange\<close>.
\<close>

definition run_duration :: "row list \<Rightarrow> nat \<Rightarrow> error + real" where
  "run_duration rows timeCol =
     (if rows = [] then Inl OutOfRange else Inr (last rows ! timeCol - hd rows ! timeCol))"

definition GetMaxTime :: "rundata \<Rightarrow> nat \<Rightarrow> error + real" where
  "GetMaxTime data timeCol =
     bindE (run_duration (run_of data ''fast-forward'') timeCol) (\<lambda>f.
     bindE (run_duration (run_of data ''fast-backward'') timeCol) (\<lambda>b.
     Inr (max f b)))"

text \<open>
  Modelled from the spec: \<open>AnalysisManager::kJsonDataKeys\<close> (AnalysisManager.h is not among
  the sources), the four runs of sections 4.F and 6, which the preparation functions also
  name one by one.
\<close>

definition kJsonDataKeys :: "string list" where
  "kJsonDataKeys = [''slow-forward'', ''slow-backward'', ''fast-forward'', ''fast-backward'']"

text \<open>The loop \<open>data[key] = json.at(key).get<std::vector<Data>>()\<close> over the keys.\<close>

fun load_runs :: "nat \<Rightarrow> json \<Rightarrow> string list \<Rightarrow> rundata \<Rightarrow> error + rundata" where
  "load_runs S json [] data = Inr data"
| "load_runs S json (key # keys) data =
     (case json key of
        None \<Rightarrow> Inl JsonError
      | Some rows \<Rightarrow>
          if list_all (\<lambda>r. length r = S) rows
          then load_runs S json keys (data(key \<mapsto> rows))
          else Inl JsonError)"

text \<open>\<open>std::copysign\<close> on the reals: the magnitude of \<open>x\<close> with the sign of \<open>y\<close>.\<close>

definition copysign :: "real \<Rightarrow> real \<Rightarrow> real" where
  "copysign x y = (if y < 0 then - \<bar>x\<bar> else \<bar>x\<bar>)"

text \<open>The loop over every point of every run of \<open>data\<close>, changing the point in place.\<close>

definition for_each_point :: "(row \<Rightarrow> row) \<Rightarrow> rundata \<Rightarrow> rundata" where
  "for_each_point f data = (\<lambda>key. map_option (map f) (data key))"

text \<open>\<open>v[0]\<close> of a vector of prepared points; undefined behaviour when it is empty.\<close>

definition first_timestamp :: "PreparedData list \<Rightarrow> error + real" where
  "first_timestamp v = (case v of [] \<Rightarrow> Inl OutOfRange | pt # _ \<Rightarrow> Inr (timestamp pt))"

text \<open>
  What a preparation function leaves in the references it was given: the settings, the two
  dataset maps, the start times, and the minimum and maximum step times.
\<close>

record ('p, 'l) prepared =
  p_settings :: "('p, 'l) Settings"
  p_rawDatasets :: datasets
  p_filteredDatasets :: datasets
  p_startTimes :: "real list"
  p_minStepTime :: real
  p_maxStepTime :: real

text \<open>
  The three assignments \<open>datasets["... Forward"] = std::make_tuple(sf, ff)\<close>,
  \<open>datasets["... Backward"] = std::make_tuple(sb, fb)\<close> and
  \<open>datasets["... Combined"] = std::make_tuple(Concatenate(sf, {&sb}), Concatenate(ff, {&fb}))\<close>,
  for the keys with a given prefix (none, \<open>Left\<close>, \<open>Right\<close>).
\<close>

definition store_datasets ::
  "datasets \<Rightarrow> string \<Rightarrow> PreparedData list \<Rightarrow> PreparedData list
     \<Rightarrow> PreparedData list \<Rightarrow> PreparedData list \<Rightarrow> datasets"
where
  "store_datasets ds prefix sf sb ff fb =
     ds(prefix @ ''Forward'' \<mapsto> (sf, ff),
        prefix @ ''Backward'' \<mapsto> (sb, fb),
        prefix @ ''Combined'' \<mapsto> (Concatenate sf [sb], Concatenate ff [fb]))"

text \<open>\<open>startTimes = {sf[0].timestamp, sb[0].timestamp, ff[0].timestamp, fb[0].timestamp}\<close>.\<close>

definition start_times ::
  "PreparedData list \<Rightarrow> PreparedData list \<Rightarrow> PreparedData list \<Rightarrow> PreparedData list
     \<Rightarrow> error + real list"
where
  "start_times sf sb ff fb =
     bindE (first_timestamp sf) (\<lambda>t0.
     bindE (first_timestamp sb) (\<lambda>t1.
     bindE (first_timestamp ff) (\<lambda>t2.
     bindE (first_timestamp fb) (\<lambda>t3.
     Inr [t0, t1, t2, t3]))))"

text \<open>
  \<open>ComputeAcceleration<...>(sysid::ApplyMedianFilter<S, Velocity>(data, window), window)\<close>.
\<close>

definition filtered_acceleration ::
  "('p, 'l) externals \<Rightarrow> nat \<Rightarrow> nat \<Rightarrow> nat \<Rightarrow> row list \<Rightarrow> int \<Rightarrow> error + PreparedData list"
where
  "filtered_acceleration ext Voltage Position Velocity data window =
     bindE (ext_ApplyMedianFilter ext Velocity data window) (\<lambda>filtered.
     ComputeAcceleration Voltage Position Velocity filtered window)"

section \<open>PrepareGeneralData (AnalysisManager.cpp, lines 129-228)\<close>

text \<open>
  Columns: time 0, voltage 1, position 2, velocity 3. The body of the loop of lines 153-159
  on one point: the voltage takes the sign of the velocity, position and velocity are
  scaled.
\<close>

definition general_point :: "real \<Rightarrow> row \<Rightarrow> row" where
  "general_point factor pt =
     pt[1 := copysign (pt ! 1) (pt ! 3), 2 := pt ! 2 * factor, 3 := pt ! 3 * factor]"

text \<open>
  The quasistatic trim of lines 163-166: the two slow runs of \<open>data\<close> are trimmed in place.
\<close>

definition general_trimmed ::
  "('p, 'l) externals \<Rightarrow> json \<Rightarrow> real \<Rightarrow> real \<Rightarrow> error + rundata"
where
  "general_trimmed ext json threshold factor =
     bindE (load_runs 4 json kJsonDataKeys Map.empty) (\<lambda>data0.
     let data1 = for_each_point (general_point factor) data0 in
     bindE (ext_TrimQuasistaticData ext 1 3 (run_of data1 ''slow-forward'') threshold)
       (\<lambda>slowF.
     let data2 = data1(''slow-forward'' \<mapsto> slowF) in
     bindE (ext_TrimQuasistaticData ext 1 3 (run_of data2 ''slow-backward'') threshold)
       (\<lambda>slowB.
     Inr (data2(''slow-backward'' \<mapsto> slowB)))))"

definition PrepareGeneralData ::
  "('p, 'l) externals \<Rightarrow> json \<Rightarrow> ('p, 'l) Settings \<Rightarrow> real \<Rightarrow> string
     \<Rightarrow> datasets \<Rightarrow> datasets \<Rightarrow> real \<Rightarrow> error + ('p, 'l) prepared"
where
  "PrepareGeneralData ext json settings factor unit rawDatasets filteredDatasets minStepTime =
     bindE (general_trimmed ext json (motionThreshold settings) factor) (\<lambda>data.
     let w = windowSize settings in
     bindE (ComputeAcceleration 1 2 3 (run_of data ''slow-forward'') w) (\<lambda>rawSf.
     bindE (ComputeAcceleration 1 2 3 (run_of data ''slow-backward'') w) (\<lambda>rawSb.
     bindE (ComputeAcceleration 1 2 3 (run_of data ''fast-forward'') w) (\<lambda>rawFf0.
     bindE (ComputeAcceleration 1 2 3 (run_of data ''fast-backward'') w) (\<lambda>rawFb0.
     bindE (filtered_acceleration ext 1 2 3 (run_of data ''slow-forward'') w) (\<lambda>sf0.
     bindE (filtered_acceleration ext 1 2 3 (run_of data ''slow-backward'') w) (\<lambda>sb0.
     bindE (filtered_acceleration ext 1 2 3 (run_of data ''fast-forward'') w) (\<lambda>ff0.
     bindE (filtered_acceleration ext 1 2 3 (run_of data ''fast-backward'') w) (\<lambda>fb0.
     let sf = CalculateCosine sf0 unit;
         sb = CalculateCosine sb0 unit;
         ff1 = CalculateCosine ff0 unit;
         fb1 = CalculateCosine fb0 unit
     in
     bindE (GetMaxTime data 0) (\<lambda>maxStepTime.
     bindE (ext_TrimStepVoltageData ext rawFf0 settings 0 maxStepTime)
       (\<lambda>(rawFf, settings1, tempTime1).
     bindE (ext_TrimStepVoltageData ext rawFb0 settings1 tempTime1 maxStepTime)
       (\<lambda>(rawFb, settings2, tempTime2).
     bindE (ext_TrimStepVoltageData ext ff1 settings2 minStepTime maxStepTime)
       (\<lambda>(ff, settings3, minStepTime1).
     bindE (ext_TrimStepVoltageData ext fb1 settings3 minStepTime1 maxStepTime)
       (\<lambda>(fb, settings4, minStepTime2).
     bindE (start_times sf sb ff fb) (\<lambda>startTimes.
     Inr \<lparr>p_settings = settings4,
          p_rawDatasets = store_datasets rawDatasets [] rawSf rawSb rawFf rawFb,
          p_filteredDatasets = store_datasets filteredDatasets [] sf sb ff fb,
          p_startTimes = startTimes,
          p_minStepTime = minStepTime2,
          p_maxStepTime = maxStepTime\<rparr>)))))))))))))))"

section \<open>PrepareAngularDrivetrainData (AnalysisManager.cpp, lines 245-315)\<close>

text \<open>
  Columns: time 0, voltage 1, left position 3, right position 4, angle 7, angular rate 8.
  The body of the loop of lines 269-275 on one point.
\<close>

definition angular_point :: "real \<Rightarrow> row \<Rightarrow> row" where
  "angular_point factor pt =
     pt[1 := 2 * copysign (pt ! 1) (pt ! 8), 3 := pt ! 3 * factor, 4 := pt ! 4 * factor]"

definition angular_trimmed ::
  "('p, 'l) externals \<Rightarrow> json \<Rightarrow> real \<Rightarrow> real \<Rightarrow> error + rundata"
where
  "angular_trimmed ext json threshold factor =
     bindE (load_runs 9 json kJsonDataKeys Map.empty) (\<lambda>data0.
     let data1 = for_each_point (angular_point factor) data0 in
     bindE (ext_TrimQuasistaticData ext 1 8 (run_of data1 ''slow-forward'') threshold)
       (\<lambda>slowF.
     let data2 = data1(''slow-forward'' \<mapsto> slowF) in
     bindE (ext_TrimQuasistaticData ext 1 8 (run_of data2 ''slow-backward'') threshold)
       (\<lambda>slowB.
     Inr (data2(''slow-backward'' \<mapsto> slowB)))))"

text \<open>
  Lines 302-306: the track width from the first and the last row of the slow-forward run
  (\<open>front()\<close> and \<open>back()\<close> of an empty vector are undefined behaviour).
\<close>

definition track_width_of ::
  "('p, 'l) externals \<Rightarrow> row list \<Rightarrow> error + real"
where
  "track_width_of ext twd =
     (if twd = [] then Inl OutOfRange
      else ext_CalculateTrackWidth ext
             (last twd ! 3 - hd twd ! 3) (last twd ! 4 - hd twd ! 4) (last twd ! 7 - hd twd ! 7))"

text \<open>
  The second call of \<open>TrimStepVoltageData\<close> (line 299) is given \<open>maxStepTime\<close> where the
  first is given \<open>minStepTime\<close>: what the call leaves there is the maximum step time from
  then on. The function is handed \<open>rawDatasets\<close> and has no statement that names it; the
  optional \<open>tw\<close> is assigned the track width.
\<close>

definition PrepareAngularDrivetrainData ::
  "('p, 'l) externals \<Rightarrow> json \<Rightarrow> ('p, 'l) Settings \<Rightarrow> real
     \<Rightarrow> datasets \<Rightarrow> datasets \<Rightarrow> real \<Rightarrow> error + (('p, 'l) prepared \<times> real)"
where
  "PrepareAngularDrivetrainData ext json settings factor rawDatasets filteredDatasets minStepTime =
     bindE (angular_trimmed ext json (motionThreshold settings) factor) (\<lambda>data.
     let w = windowSize settings in
     bindE (ComputeAcceleration 1 7 8 (run_of data ''slow-forward'') w) (\<lambda>sf.
     bindE (ComputeAcceleration 1 7 8 (run_of data ''slow-backward'') w) (\<lambda>sb.
     bindE (ComputeAcceleration 1 7 8 (run_of data ''fast-forward'') w) (\<lambda>ff0.
     bindE (ComputeAcceleration 1 7 8 (run_of data ''fast-backward'') w) (\<lambda>fb0.
     bindE (GetMaxTime data 0) (\<lambda>maxStepTime.
     bindE (ext_TrimStepVoltageData ext ff0 settings minStepTime maxStepTime)
       (\<lambda>(ff, settings1, minStepTime1).
     bindE (ext_TrimStepVoltageData ext fb0 settings1 maxStepTime maxStepTime)
       (\<lambda>(fb, settings2, maxStepTime1).
     bindE (track_width_of ext (run_of data ''slow-forward'')) (\<lambda>tw.
     bindE (start_times sf sb ff fb) (\<lambda>startTimes.
     Inr (\<lparr>p_settings = settings2,
           p_rawDatasets = rawDatasets,
           p_filteredDatasets = store_datasets filteredDatasets [] sf sb ff fb,
           p_startTimes = startTimes,
           p_minStepTime = minStepTime1,
           p_maxStepTime = maxStepTime1\<rparr>, tw)))))))))))"

section \<open>PrepareLinearDrivetrainData (AnalysisManager.cpp, lines 330-489)\<close>

text \<open>
  Columns: time 0, left and right voltage 1 and 2, left and right position 3 and 4, left
  and right velocity 5 and 6. The body of the loop of lines 355-364 on one point.
\<close>

definition linear_point :: "real \<Rightarrow> row \<Rightarrow> row" where
  "linear_point factor pt =
     pt[1 := copysign (pt ! 1) (pt ! 5), 2 := copysign (pt ! 2) (pt ! 6),
        3 := pt ! 3 * factor, 4 := pt ! 4 * factor,
        5 := pt ! 5 * factor, 6 := pt ! 6 * factor]"

text \<open>
  The quasistatic trim of lines 368-375. The four calls work in place on the two slow runs
  of \<open>data\<close>: first with the left columns on both runs, then with the right columns on what
  the first calls left.
\<close>

definition linear_trimmed ::
  "('p, 'l) externals \<Rightarrow> json \<Rightarrow> real \<Rightarrow> real \<Rightarrow> error + rundata"
where
  "linear_trimmed ext json threshold factor =
     bindE (load_runs 9 json kJsonDataKeys Map.empty) (\<lambda>data0.
     let data1 = for_each_point (linear_point factor) data0 in
     bindE (ext_TrimQuasistaticData ext 1 5 (run_of data1 ''slow-forward'') threshold)
       (\<lambda>slowF1.
     let data2 = data1(''slow-forward'' \<mapsto> slowF1) in
     bindE (ext_TrimQuasistaticData ext 1 5 (run_of data2 ''slow-backward'') threshold)
       (\<lambda>slowB1.
     let data3 = data2(''slow-backward'' \<mapsto> slowB1) in
     bindE (ext_TrimQuasistaticData ext 2 6 (run_of data3 ''slow-forward'') threshold)
       (\<lambda>slowF2.
     let data4 = data3(''slow-forward'' \<mapsto> slowF2) in
     bindE (ext_TrimQuasistaticData ext 2 6 (run_of data4 ''slow-backward'') threshold)
       (\<lambda>slowB2.
     Inr (data4(''slow-backward'' \<mapsto> slowB2)))))))"

text \<open>
  Lines 378-427: the accelerations of one side, on the raw and on the median-filtered
  velocities, for the four runs, in the order of the source (slow forward, slow backward,
  fast forward, fast backward).
\<close>

definition raw_side ::
  "nat \<Rightarrow> nat \<Rightarrow> nat \<Rightarrow> rundata \<Rightarrow> int
     \<Rightarrow> error + (PreparedData list \<times> PreparedData list \<times> PreparedData list \<times> PreparedData list)"
where
  "raw_side Voltage Position Velocity data w =
     bindE (ComputeAcceleration Voltage Position Velocity (run_of data ''slow-forward'') w)
       (\<lambda>sf.
     bindE (ComputeAcceleration Voltage Position Velocity (run_of data ''slow-backward'') w)
       (\<lambda>sb.
     bindE (ComputeAcceleration Voltage Position Velocity (run_of data ''fast-forward'') w)
       (\<lambda>ff.
     bindE (ComputeAcceleration Voltage Position Velocity (run_of data ''fast-backward'') w)
       (\<lambda>fb.
     Inr (sf, sb, ff, fb)))))"

definition filtered_side ::
  "('p, 'l) externals \<Rightarrow> nat \<Rightarrow> nat \<Rightarrow> nat \<Rightarrow> rundata \<Rightarrow> int
     \<Rightarrow> error + (PreparedData list \<times> PreparedData list \<times> PreparedData list \<times> PreparedData list)"
where
  "filtered_side ext Voltage Position Velocity data w =
     bindE (filtered_acceleration ext Voltage Position Velocity (run_of data ''slow-forward'') w)
       (\<lambda>sf.
     bindE (filtered_acceleration ext Voltage Position Velocity (run_of data ''slow-backward'') w)
       (\<lambda>sb.
     bindE (filtered_acceleration ext Voltage Position Velocity (run_of data ''fast-forward'') w)
       (\<lambda>ff.
     bindE (filtered_acceleration ext Voltage Position Velocity (run_of data ''fast-backward'') w)
       (\<lambda>fb.
     Inr (sf, sb, ff, fb)))))"

text \<open>
  Lines 435-438 and 441-444: four calls of \<open>TrimStepVoltageData\<close> in the order forward
  left, forward right, backward left, backward right, each given the settings and the
  minimum time that the call before left.
\<close>

definition trim_four ::
  "('p, 'l) externals \<Rightarrow> PreparedData list \<Rightarrow> PreparedData list \<Rightarrow> PreparedData list
     \<Rightarrow> PreparedData list \<Rightarrow> ('p, 'l) Settings \<Rightarrow> real \<Rightarrow> real
     \<Rightarrow> error + (PreparedData list \<times> PreparedData list \<times> PreparedData list
                  \<times> PreparedData list \<times> ('p, 'l) Settings \<times> real)"
where
  "trim_four ext ffl0 ffr0 fbl0 fbr0 settings minTime maxStepTime =
     bindE (ext_TrimStepVoltageData ext ffl0 settings minTime maxStepTime)
       (\<lambda>(ffl, settings1, minTime1).
     bindE (ext_TrimStepVoltageData ext ffr0 settings1 minTime1 maxStepTime)
       (\<lambda>(ffr, settings2, minTime2).
     bindE (ext_TrimStepVoltageData ext fbl0 settings2 minTime2 maxStepTime)
       (\<lambda>(fbl, settings3, minTime3).
     bindE (ext_TrimStepVoltageData ext fbr0 settings3 minTime3 maxStepTime)
       (\<lambda>(fbr, settings4, minTime4).
     Inr (ffl, ffr, fbl, fbr, settings4, minTime4)))))"

definition PrepareLinearDrivetrainData ::
  "('p, 'l) externals \<Rightarrow> json \<Rightarrow> ('p, 'l) Settings \<Rightarrow> real
     \<Rightarrow> datasets \<Rightarrow> datasets \<Rightarrow> real \<Rightarrow> error + ('p, 'l) prepared"
where
  "PrepareLinearDrivetrainData ext json settings factor rawDatasets filteredDatasets minStepTime =
     bindE (linear_trimmed ext json (motionThreshold settings) factor) (\<lambda>data.
     let w = windowSize settings in
     bindE (raw_side 1 3 5 data w) (\<lambda>(rawSfl, rawSbl, rawFfl0, rawFbl0).
     bindE (raw_side 2 4 6 data w) (\<lambda>(rawSfr, rawSbr, rawFfr0, rawFbr0).
     bindE (filtered_side ext 1 3 5 data w) (\<lambda>(sfl, sbl, ffl0, fbl0).
     bindE (filtered_side ext 2 4 6 data w) (\<lambda>(sfr, sbr, ffr0, fbr0).
     bindE (GetMaxTime data 0) (\<lambda>maxStepTime.
     bindE (trim_four ext rawFfl0 rawFfr0 rawFbl0 rawFbr0 settings 0 maxStepTime)
       (\<lambda>(rawFfl, rawFfr, rawFbl, rawFbr, settings1, tempTime).
     bindE (trim_four ext ffl0 ffr0 fbl0 fbr0 settings1 minStepTime maxStepTime)
       (\<lambda>(ffl, ffr, fbl, fbr, settings2, minStepTime1).
     let raw_sf = Concatenate rawSfl [rawSfr];
         raw_sb = Concatenate rawSbl [rawSbr];
         raw_ff = Concatenate rawFfl [rawFfr];
         raw_fb = Concatenate rawFbl [rawFbr];
         raw1 = store_datasets rawDatasets [] raw_sf raw_sb raw_ff raw_fb;
         raw2 = store_datasets raw1 ''Left '' rawSfl rawSbl rawFfl rawFbl;
         raw3 = store_datasets raw2 ''Right '' rawSfr rawSbr rawFfr rawFbr;
         sf = Concatenate sfl [sfr];
         sb = Concatenate sbl [sbr];
         ff = Concatenate ffl [ffr];
         fb = Concatenate fbl [fbr];
         filtered1 = store_datasets filteredDatasets [] sf sb ff fb;
         filtered2 = store_datasets filtered1 ''Left '' sfl sbl ffl fbl;
         filtered3 = store_datasets filtered2 ''Right '' sfr sbr ffr fbr
     in
     bindE (start_times sf sb ff fb) (\<lambda>startTimes.
     Inr \<lparr>p_settings = settings2,
          p_rawDatasets = raw3,
          p_filteredDatasets = filtered3,
          p_startTimes = startTimes,
          p_minStepTime = minStepTime1,
          p_maxStepTime = maxStepTime\<rparr>)))))))))"

section \<open>AnalysisManager: PrepareData and Calculate (lines 527-568)\<close>

text \<open>
  A preparation function works on references to the manager's members; \<open>commit\<close> is the
  manager with what the function left there. When the function throws, the model gives the
  error and no manager.
\<close>

definition commit ::
  "('p, 'l) AnalysisManager \<Rightarrow> ('p, 'l) prepared \<Rightarrow> ('p, 'l) AnalysisManager"
where
  "commit m p =
     m\<lparr>m_settings := p_settings p,
       m_rawDatasets := p_rawDatasets p,
       m_filteredDatasets := p_filteredDatasets p,
       m_startTimes := p_startTimes p,
       m_minDuration := p_minStepTime p,
       m_maxDuration := p_maxStepTime p\<rparr>"

definition PrepareData ::
  "('p, 'l) externals \<Rightarrow> ('p, 'l) AnalysisManager \<Rightarrow> error + ('p, 'l) AnalysisManager"
where
  "PrepareData ext m =
     (if m_type m = kDrivetrain then
        bindE (PrepareLinearDrivetrainData ext (m_json m) (m_settings m) (m_factor m)
                 (m_rawDatasets m) (m_filteredDatasets m) (m_minDuration m))
          (\<lambda>p. Inr (commit m p))
      else if m_type m = kDrivetrainAngular then
        bindE (PrepareAngularDrivetrainData ext (m_json m) (m_settings m) (m_factor m)
                 (m_rawDatasets m) (m_filteredDatasets m) (m_minDuration m))
          (\<lambda>(p, tw). Inr ((commit m p)\<lparr>m_trackWidth := Some tw\<rparr>))
      else
        bindE (PrepareGeneralData ext (m_json m) (m_settings m) (m_factor m) (m_unit m)
                 (m_rawDatasets m) (m_filteredDatasets m) (m_minDuration m))
          (\<lambda>p. Inr (commit m p)))"

text \<open>
  \<open>Gains\<close>: what \<open>Calculate\<close> returns, \<open>{ff, fb, m_trackWidth}\<close>. \<open>ff\<close> is the tuple that
  \<open>CalculateFeedforwardGains\<close> returns, whose first component is the coefficient vector
  (with the RMSE and R squared of section 3 of the specification after it).
\<close>

type_synonym Gains = "(real list \<times> real \<times> real) \<times> (real \<times> real) \<times> real option"

text \<open>
  \<open>kDatasets[i]\<close> and \<open>f[0]\<close>, \<open>f[1]\<close>, \<open>f[2]\<close> are unchecked reads: out of range they
  are undefined behaviour, here \<open>OutOfRange\<close>. \<open>m_filteredDatasets[key]\<close> is the dataset
  under \<open>key\<close>, a pair of empty vectors stored under \<open>key\<close> when there was none: the manager
  is returned with it.
\<close>

definition conversion_factor :: "('p, 'l) AnalysisManager \<Rightarrow> real" where
  "conversion_factor m =
     (if convertGainsToEncTicks (m_settings m)
      then gearing (m_settings m) * cpr (m_settings m) * m_factor m
      else 1)"

definition Calculate ::
  "('p, 'l) externals \<Rightarrow> ('p, 'l) AnalysisManager
     \<Rightarrow> error + (Gains \<times> ('p, 'l) AnalysisManager)"
where
  "Calculate ext m =
     (if dataset (m_settings m) \<ge> length (ext_kDatasets ext) then Inl OutOfRange
      else
        let key = ext_kDatasets ext ! dataset (m_settings m);
            storage = (case m_filteredDatasets m key of None \<Rightarrow> ([], []) | Some s \<Rightarrow> s);
            m1 = m\<lparr>m_filteredDatasets := (m_filteredDatasets m)(key \<mapsto> storage)\<rparr>
        in
        bindE (ext_CalculateFeedforwardGains ext storage (m_type m)) (\<lambda>ff.
        let f = fst ff in
        if length f < 3 then Inl OutOfRange
        else
          let gains = \<lparr>Ks = f ! 0, Kv = f ! 1, Ka = f ! 2\<rparr> in
          bindE (if type (m_settings m) = kPosition
                 then ext_CalculatePositionFeedbackGains ext (preset (m_settings m))
                        (lqr (m_settings m)) gains (conversion_factor m)
                 else ext_CalculateVelocityFeedbackGains ext (preset (m_settings m))
                        (lqr (m_settings m)) gains (conversion_factor m))
            (\<lambda>fb. Inr ((ff, fb, m_trackWidth m), m1))))"

section \<open>The functions whose bodies are not among the sources\<close>

subsection \<open>TrimQuasistaticData\<close>

text \<open>
  Modelled from the spec: \<open>TrimQuasistaticData\<close> of FilteringUtils, which is not among the
  sources. Section 4.A: every point with \<open>|velocity| < motionThreshold\<close> or
  \<open>|voltage| < \<epsilon>\<close> is erased, in place, and the surviving points keep their order. The
  specification gives \<open>\<epsilon>\<close> no value: it is the parameter \<open>eps\<close>.
\<close>

definition TrimQuasistaticData :: "real \<Rightarrow> nat \<Rightarrow> nat \<Rightarrow> row list \<Rightarrow> real \<Rightarrow> row list" where
  "TrimQuasistaticData eps Voltage Velocity data threshold =
     filter (\<lambda>pt. \<not> (\<bar>pt ! Velocity\<bar> < threshold \<or> \<bar>pt ! Voltage\<bar> < eps)) data"

subsection \<open>CalculateTrackWidth\<close>

text \<open>
  Modelled from the spec: \<open>CalculateTrackWidth\<close> of TrackWidthAnalysis, which is not among
  the sources. Section 4.E: the sum of the magnitudes of the two wheel deltas over the
  magnitude of the heading delta; \<open>ZeroHeadingChange\<close> when that magnitude is below \<open>\<epsilon>\<close>,
  the parameter \<open>eps\<close>.
\<close>

definition CalculateTrackWidth :: "real \<Rightarrow> real \<Rightarrow> real \<Rightarrow> real \<Rightarrow> error + real" where
  "CalculateTrackWidth eps leftDelta rightDelta headingDelta =
     (if \<bar>headingDelta\<bar> < eps then Inl ZeroHeadingChange
      else Inr ((\<bar>leftDelta\<bar> + \<bar>rightDelta\<bar>) / \<bar>headingDelta\<bar>))"

subsection \<open>ApplyMedianFilter\<close>

text \<open>
  Modelled from the spec: the median of section 4.A, for a window of odd size the middle
  one of its values in order.
\<close>

definition median :: "real list \<Rightarrow> real" where
  "median xs = sort xs ! (length xs div 2)"

text \<open>
  Modelled from the spec: \<open>ApplyMedianFilter<S, Velocity>(data, window)\<close> of FilteringUtils,
  the function that \<open>AnalysisManager.cpp\<close> calls on the raw rows of a run and whose result
  it hands to \<open>ComputeAcceleration\<close>; its body is not among the sources. Section 4.A: a
  sequence shorter than the window is \<open>InsufficientData\<close>; the first and the last
  \<open>(window - 1) / 2\<close> points are discarded; every point between them is returned with its
  velocity replaced by the median of the window around it, read off the sequence as given.
  The specification requires an odd window of at least 3 and does not say what another
  window does: the model makes no check of it.

  The repository's test \<open>FilterTest.MedianFilter\<close> calls another overload,
  \<open>ApplyMedianFilter(&data, window)\<close>, which filters a vector of prepared points in place
  and is expected to leave ten points of ten, the first and the last as they were. That
  overload is not called by \<open>AnalysisManager.cpp\<close> and is not modelled.
\<close>

definition ApplyMedianFilter :: "nat \<Rightarrow> row list \<Rightarrow> int \<Rightarrow> error + row list" where
  "ApplyMedianFilter Velocity data window =
     (let w = nat window; step = (w - 1) div 2
      in if length data < w then Inl InsufficientData
         else Inr (map (\<lambda>i. (data ! i)[Velocity :=
                               median (map (\<lambda>r. r ! Velocity) (take w (drop (i - step) data)))])
                     [step ..< length data - step]))"


text \<open>
  \<open>FilterTest.MedianFilter\<close>: a point \<open>PreparedData{0_s, 0, 0, v}\<close> has the velocity \<open>v\<close>
  and zero in every other field. The test hands \<open>testData\<close> to the in-place overload
  with a window of 3 and expects \<open>expectedData\<close> in its place.
\<close>

definition velocity_point :: "real \<Rightarrow> PreparedData" where
  "velocity_point v =
     \<lparr>timestamp = 0, voltage = 0, position = 0, velocity = v, dt = 0,
      acceleration = 0, cos_field = 0\<rparr>"



subsection \<open>TrimStepVoltageData\<close>

text \<open>
  \<open>TrimStepVoltageData\<close> of FilteringUtils is not among the sources. The preparation
  functions take it as a parameter, and no model of its body is given: section 4.A
  describes a procedure (the run cut from the first acceleration above the noise floor to
  the acceleration peak) whose result on the run of section 8 is not the result that
  section 8 and the repository's test \<open>FilterTest.StepTrim\<close> give for it. What the sources
  say of the function is that test, embedded here: its run, the points it expects, and its
  four expectations.

  The run of \<open>FilterTest.StepTrim\<close>: ten points one second apart, with voltage 1, position
  2, velocity 3, \<open>dt\<close> 5 ms and the accelerations listed.
\<close>

definition accel_points :: "real list \<Rightarrow> PreparedData list" where
  "accel_points accs =
     map (\<lambda>i. \<lparr>timestamp = real i, voltage = 1, position = 2, velocity = 3, dt = 5 / 1000,
               acceleration = accs ! i, cos_field = 0\<rparr>)
       [0 ..< length accs]"


text \<open>
  The settings of the test are default-constructed. The step test duration starts at 0
  (section 3: 0 stands for automatic; the constructor of the manager sets it to 0 too,
  line 519).
\<close>

definition test_settings :: "(unit, unit) Settings" where
  "test_settings =
     \<lparr>motionThreshold = 2 / 10, windowSize = 3, stepTestDuration = 0, dataset = 0,
      type = kVelocity, preset = (), lqr = (), convertGainsToEncTicks = False,
      gearing = 1, cpr = 1\<rparr>"



subsection \<open>The order of the fitted coefficients\<close>

text \<open>
  Modelled from the spec: the table of section 4.C (FeedforwardAnalysis is not among the
  sources). The fitted vector is \<open>Ks, Kv, Ka\<close> for Simple and the two drivetrain types,
  \<open>Ks, Kg, Kv, Ka\<close> for Elevator and \<open>Ks, Kcos, Kv, Ka\<close> for Arm: the positions of \<open>Kv\<close>
  and \<open>Ka\<close>, and the entries there.
\<close>

definition table_Kv_index :: "AnalysisType \<Rightarrow> nat" where
  "table_Kv_index t = (if t = kElevator \<or> t = kArm then 2 else 1)"

definition table_Ka_index :: "AnalysisType \<Rightarrow> nat" where
  "table_Ka_index t = (if t = kElevator \<or> t = kArm then 3 else 2)"

definition table_Kv :: "AnalysisType \<Rightarrow> real list \<Rightarrow> real" where
  "table_Kv t beta = beta ! table_Kv_index t"

definition table_Ka :: "AnalysisType \<Rightarrow> real list \<Rightarrow> real" where
  "table_Ka t beta = beta ! table_Ka_index t"

section \<open>Statements about datasets\<close>

text \<open>
  The dataset family with a given prefix of a dataset map: its Combined dataset is the
  Forward one followed by the Backward one, for the quasistatic and for the dynamic
  points, and the lengths add.
\<close>

definition combined_is_forward_then_backward :: "datasets \<Rightarrow> string \<Rightarrow> bool" where
  "combined_is_forward_then_backward ds prefix =
     (case (ds (prefix @ ''Forward''), ds (prefix @ ''Backward''), ds (prefix @ ''Combined'')) of
        (Some (fq, fd), Some (bq, bd), Some (cq, cd)) \<Rightarrow>
           cq = fq @ bq \<and> cd = fd @ bd \<and>
           length cq = length fq + length bq \<and> length cd = length fd + length bd
      | _ \<Rightarrow> False)"

text \<open>The quasistatic points of the dataset under a key.\<close>

definition quasistatic_of :: "datasets \<Rightarrow> string \<Rightarrow> PreparedData list option" where
  "quasistatic_of ds key = map_option fst (ds key)"

text \<open>Every point of the dataset under a key has the cosine 0.\<close>

definition all_cos_zero :: "datasets \<Rightarrow> string \<Rightarrow> bool" where
  "all_cos_zero ds key =
     (case ds key of
        Some (q, d) \<Rightarrow> list_all (\<lambda>pt. cos_field pt = 0) q \<and> list_all (\<lambda>pt. cos_field pt = 0) d
      | None \<Rightarrow> False)"

text \<open>
  A step trim that only erases: the points it leaves are among the points it was given.
\<close>

definition trim_only_erases :: "('p, 'l) externals \<Rightarrow> bool" where
  "trim_only_erases ext =
     (\<forall>d s mn mx d' s' mn'.
        ext_TrimStepVoltageData ext d s mn mx = Inr (d', s', mn') \<longrightarrow> set d' \<subseteq> set d)"

section \<open>Instances for the examples\<close>

text \<open>
  A step trim for the examples. It is not the \<open>TrimStepVoltageData\<close> of FilteringUtils,
  of which the sources have no body: it keeps the points of the run up to the step test
  duration after the first point (at most \<open>maxStepTime\<close>), sets a step test duration of 0
  to the length of the run, and lowers the minimum time to the length of what it keeps. A
  run with no point, or left with none, is \<open>InsufficientData\<close>.
\<close>

definition step_trim_instance ::
  "PreparedData list \<Rightarrow> ('p, 'l) Settings \<Rightarrow> real \<Rightarrow> real
     \<Rightarrow> error + (PreparedData list \<times> ('p, 'l) Settings \<times> real)"
where
  "step_trim_instance data settings minStepTime maxStepTime =
     (if data = [] then Inl InsufficientData
      else if 0 < stepTestDuration settings then
        let kept = takeWhile (\<lambda>pt. timestamp pt \<le> timestamp (hd data)
                                      + min (stepTestDuration settings) maxStepTime) data
        in if kept = [] then Inl InsufficientData
           else Inr (kept, settings,
                     min minStepTime (timestamp (last kept) - timestamp (hd kept)))
      else Inr (data,
                settings\<lparr>stepTestDuration := timestamp (last data) - timestamp (hd data)\<rparr>,
                min minStepTime (timestamp (last data) - timestamp (hd data))))"

text \<open>
  An instance of the parameters: the quasistatic trim, the median filter of raw rows and
  the track width as modelled above, with \<open>\<epsilon>\<close> one millionth; the step trim just
  defined; a feedforward fit that answers the vector 1, 2, 3, 4 and feedback computations
  that answer the \<open>Kv\<close> and \<open>Ka\<close> they are given, so that an example shows what
  \<open>Calculate\<close> hands over; three dataset names.
\<close>

definition feedback_probe :: "unit \<Rightarrow> unit \<Rightarrow> FeedforwardGains \<Rightarrow> real \<Rightarrow> error + (real \<times> real)" where
  "feedback_probe p q gains factor = Inr (Kv gains, Ka gains)"

definition test_externals :: "(unit, unit) externals" where
  "test_externals =
     \<lparr>ext_TrimQuasistaticData =
        (\<lambda>Voltage Velocity data threshold.
           Inr (TrimQuasistaticData (1 / 1000000) Voltage Velocity data threshold)),
      ext_ApplyMedianFilter = ApplyMedianFilter,
      ext_TrimStepVoltageData = step_trim_instance,
      ext_CalculateTrackWidth = CalculateTrackWidth (1 / 1000000),
      ext_CalculateFeedforwardGains = (\<lambda>storage t. Inr ([1, 2, 3, 4], 0, 1)),
      ext_CalculatePositionFeedbackGains = feedback_probe,
      ext_CalculateVelocityFeedbackGains = feedback_probe,
      ext_kDatasets = [''Combined'', ''Forward'', ''Backward'']\<rparr>"

text \<open>
  A log of a general mechanism: rows of time, voltage, position, velocity. The first row
  of each slow run is below the motion threshold of 0.2.
\<close>

definition general_json :: json where
  "general_json =
     [''slow-forward'' \<mapsto>
        [[0, 1/2, 0, 1/10], [1, 1, 1/5, 3/10], [2, 3/2, 3/5, 1/2], [3, 2, 6/5, 4/5],
         [4, 5/2, 21/10, 6/5], [5, 3, 7/2, 17/10], [6, 7/2, 27/5, 23/10],
         [7, 4, 8, 3]],
      ''slow-backward'' \<mapsto>
        [[0, 1/2, 0, -1/10], [1, 1, -1/5, -3/10], [2, 3/2, -3/5, -1/2], [3, 2, -6/5, -4/5],
         [4, 5/2, -21/10, -6/5], [5, 3, -7/2, -17/10], [6, 7/2, -27/5, -23/10],
         [7, 4, -8, -3]],
      ''fast-forward'' \<mapsto>
        [[0, 6, 0, 0], [1, 6, 1, 2], [2, 6, 4, 7/2], [3, 6, 8, 9/2], [4, 6, 13, 5],
         [5, 6, 18, 26/5], [6, 6, 23, 53/10]],
      ''fast-backward'' \<mapsto>
        [[0, 6, 0, 0], [1, 6, -1, -2], [2, 6, -4, -7/2], [3, 6, -8, -9/2], [4, 6, -13, -5],
         [5, 6, -18, -26/5], [6, 6, -23, -53/10], [7, 6, -28, -27/5], [8, 6, -34, -11/2]]]"

text \<open>
  A log of a drivetrain: rows of time, left and right voltage, left and right position,
  left and right velocity, angle, angular rate. In the fourth row of the slow forward run
  the left side is below the motion threshold of 0.2 and the right side is above it. In
  the fast runs the two sides have positions and velocities of their own.
\<close>

definition drivetrain_json :: json where
  "drivetrain_json =
     [''slow-forward'' \<mapsto>
        [[0, 1/2, 1/2, 0, 0, 1/4, 3/10, 0, 3/10],
         [1, 1, 1, 1/5, 3/10, 3/10, 1/2, 1/10, 2/5],
         [2, 3/2, 3/2, 3/5, 9/10, 1/2, 4/5, 3/10, 3/5],
         [3, 2, 2, 6/5, 9/5, 1/20, 6/5, 3/5, 9/10],
         [4, 5/2, 5/2, 21/10, 31/10, 6/5, 17/10, 1, 13/10],
         [5, 3, 3, 7/2, 5, 17/10, 23/10, 3/2, 9/5],
         [6, 7/2, 7/2, 27/5, 15/2, 23/10, 3, 21/10, 12/5]],
      ''slow-backward'' \<mapsto>
        [[0, 1/2, 1/2, 0, 0, -1/4, -3/10, 0, -3/10],
         [1, 1, 1, -1/5, -3/10, -3/10, -1/2, -1/10, -2/5],
         [2, 3/2, 3/2, -3/5, -9/10, -1/2, -4/5, -3/10, -3/5],
         [3, 2, 2, -6/5, -9/5, -4/5, -6/5, -3/5, -9/10],
         [4, 5/2, 5/2, -21/10, -31/10, -6/5, -17/10, -1, -13/10],
         [5, 3, 3, -7/2, -5, -17/10, -23/10, -3/2, -9/5],
         [6, 7/2, 7/2, -27/5, -15/2, -23/10, -3, -21/10, -12/5]],
      ''fast-forward'' \<mapsto>
        [[0, 6, 5, 0, 0, 0, 0, 0, 0],
         [1, 6, 5, 1, 3/2, 2, 5/2, 1/2, 1],
         [2, 6, 5, 4, 5, 7/2, 4, 2, 9/5],
         [3, 6, 5, 8, 10, 9/2, 5, 4, 23/10],
         [4, 6, 5, 13, 16, 5, 11/2, 6, 5/2],
         [5, 6, 5, 18, 22, 26/5, 57/10, 9, 13/5],
         [6, 6, 5, 23, 28, 53/10, 29/5, 12, 53/20]],
      ''fast-backward'' \<mapsto>
        [[0, 6, 5, 0, 0, 0, 0, 0, 0],
         [1, 6, 5, -1, -3/2, -2, -5/2, -1/2, -1],
         [2, 6, 5, -4, -5, -7/2, -4, -2, -9/5],
         [3, 6, 5, -8, -10, -9/2, -5, -4, -23/10],
         [4, 6, 5, -13, -16, -5, -11/2, -6, -5/2],
         [5, 6, 5, -18, -22, -26/5, -57/10, -9, -13/5],
         [6, 6, 5, -23, -28, -53/10, -29/5, -12, -53/20]]]"

text \<open>
  A manager as the constructor leaves it before \<open>PrepareData\<close>: no datasets, no track
  width, a step test duration of 0 and a minimum duration of 100000 (lines 519-520).
\<close>

definition fresh_manager :: "json \<Rightarrow> AnalysisType \<Rightarrow> string \<Rightarrow> (unit, unit) AnalysisManager" where
  "fresh_manager j t u =
     \<lparr>m_json = j, m_settings = test_settings, m_type = t, m_unit = u, m_factor = 1,
      m_rawDatasets = Map.empty, m_filteredDatasets = Map.empty, m_startTimes = [],
      m_minDuration = 100000, m_maxDuration = 0, m_trackWidth = None\<rparr>"

text \<open>Short runs of a general mechanism, for the examples of \<open>ComputeAcceleration\<close>.\<close>

definition run4 :: "row list" where
  "run4 = [[0, 1, 0, 0], [1, 1, 1, 1], [2, 1, 3, 2], [3, 1, 4, 1]]"

definition run5 :: "row list" where
  "run5 = [[0, 1, 0, 0], [1, 1, 1, 1], [2, 1, 3, 2], [3, 1, 4, 1], [4, 1, 9, 5]]"

text \<open>
  A manager of an elevator with a filtered Combined dataset, for the example of
  \<open>Calculate\<close>; the settings select dataset 0 and the velocity loop.
\<close>

definition elevator_manager :: "(unit, unit) AnalysisManager" where
  "elevator_manager =
     (fresh_manager general_json kElevator ''Meters'')
       \<lparr>m_filteredDatasets :=
          [''Combined'' \<mapsto> (accel_points [1, 2, 3], accel_points [5, 4, 3])]\<rparr>"

text \<open>
  The fourth row of the slow forward run of \<open>drivetrain_json\<close>: the left velocity 0.05
  is below the motion threshold 0.2 of \<open>test_settings\<close>, the right velocity 1.2 is above
  it.
\<close>

definition stalled_row :: row where
  "stalled_row = [3, 2, 2, 6/5, 9/5, 1/20, 6/5, 3/5, 9/10]"

section \<open>Basic facts\<close>

lemma bindE_Inr_iff: "bindE m f = Inr y \<longleftrightarrow> (\<exists>x. m = Inr x \<and> f x = Inr y)"
  by (cases m) (simp_all add: bindE_def)

lemma bindE_Inr [simp]: "bindE (Inr x) f = f x"
  by (simp add: bindE_def)

lemma bindE_Inl [simp]: "bindE (Inl e) f = Inl e"
  by (simp add: bindE_def)

lemma Concatenate_append: "Concatenate dest srcs = dest @ concat srcs"
  by (induction srcs arbitrary: dest) simp_all

lemma sdiv_two_nonneg: "0 \<le> (w::int) \<Longrightarrow> w sdiv 2 = w div 2"
  by (simp add: signed_divide_int_def sgn_if)

lemma size_t_of_int_nonneg: "0 \<le> w \<Longrightarrow> size_t_of_int w = nat w"
  by (simp add: size_t_of_int_def)

section \<open>Properties of ComputeAcceleration\<close>

lemma ComputeAcceleration_loop_not_insufficient:
  "ComputeAcceleration_loop Voltage Position Velocity data step i prepared
     \<noteq> Inl InsufficientData"
proof (induction Voltage Position Velocity data step i prepared
        rule: ComputeAcceleration_loop.induct)
  case (1 Voltage Position Velocity data step i prepared)
  show ?case
    using "1.IH" by (subst ComputeAcceleration_loop.simps) simp
qed

text \<open>
  What the loop returns: the points already there, followed by one point for each index
  from \<open>i\<close> up to \<open>N - step\<close> whose acceleration is not zero, in the order of the indices.
\<close>

lemma ComputeAcceleration_loop_result:
  "ComputeAcceleration_loop Voltage Position Velocity data step i prepared = Inr out
   \<Longrightarrow> out = prepared @
         map (\<lambda>j. make_prepared Voltage Position Velocity (data ! j)
                    (accel_at Velocity data step j))
           (filter (\<lambda>j. accel_at Velocity data step j \<noteq> 0) [i ..< length data - step])"
proof (induction Voltage Position Velocity data step i prepared
        rule: ComputeAcceleration_loop.induct)
  case (1 Voltage Position Velocity data step i prepared)
  show ?case
  proof (cases "i < length data - step")
    case False
    with "1.prems" show ?thesis
      by (simp add: ComputeAcceleration_loop.simps)
  next
    case True
    let ?nz = "(data ! (i + step)) ! 0 - (data ! (i - step)) ! 0 \<noteq> 0"
    from True "1.prems" have nz: ?nz
      by (subst (asm) ComputeAcceleration_loop.simps) (auto split: if_splits)
    from True nz "1.prems" have rec:
      "ComputeAcceleration_loop Voltage Position Velocity data step (i + 1)
         (if accel_at Velocity data step i \<noteq> 0
          then prepared @ [make_prepared Voltage Position Velocity (data ! i)
                             (accel_at Velocity data step i)]
          else prepared) = Inr out"
      by (subst (asm) ComputeAcceleration_loop.simps) simp
    have split: "[i ..< length data - step] = i # [i + 1 ..< length data - step]"
      using True by (simp add: upt_conv_Cons)
    from "1.IH" [OF True _ rec] nz show ?thesis
      by (simp add: split)
  qed
qed

lemma ComputeAcceleration_loop_returns:
  assumes "\<forall>j. i \<le> j \<and> j < length data - step \<longrightarrow>
             (data ! (j + step)) ! 0 - (data ! (j - step)) ! 0 \<noteq> 0"
  shows "\<exists>out. ComputeAcceleration_loop Voltage Position Velocity data step i prepared = Inr out"
  using assms
proof (induction Voltage Position Velocity data step i prepared
        rule: ComputeAcceleration_loop.induct)
  case (1 Voltage Position Velocity data step i prepared)
  show ?case
  proof (cases "i < length data - step")
    case False
    then show ?thesis by (simp add: ComputeAcceleration_loop.simps)
  next
    case True
    with "1.prems" have nz: "(data ! (i + step)) ! 0 - (data ! (i - step)) ! 0 \<noteq> 0"
      by simp
    have "\<exists>out. ComputeAcceleration_loop Voltage Position Velocity data step (i + 1)
         (if accel_at Velocity data step i \<noteq> 0
          then prepared @ [make_prepared Voltage Position Velocity (data ! i)
                             (accel_at Velocity data step i)]
          else prepared) = Inr out"
      using "1.prems" by (intro "1.IH" [OF True nz]) simp
    with True nz show ?thesis
      by (subst ComputeAcceleration_loop.simps) simp
  qed
qed

text \<open>
  The model of \<open>ComputeAcceleration\<close> returns whenever the run is longer than the window
  and no two samples \<open>2 * step\<close> apart carry the same time.
\<close>

lemma ComputeAcceleration_returns:
  assumes "0 \<le> window" and "window < int (length data)"
    and "\<forall>j. (data ! (j + nat (window div 2))) ! 0 \<noteq> (data ! (j - nat (window div 2))) ! 0"
  shows "\<exists>out. ComputeAcceleration Voltage Position Velocity data window = Inr out"
proof -
  have "size_t_of_int (window sdiv 2) = nat (window div 2)"
    using assms(1) by (simp add: sdiv_two_nonneg size_t_of_int_nonneg)
  moreover have "\<not> length data \<le> size_t_of_int window"
    using assms(1,2) by (simp add: size_t_of_int_nonneg)
  ultimately show ?thesis
    using assms(3) ComputeAcceleration_loop_returns
    by (simp add: ComputeAcceleration_def Let_def)
qed

text \<open>
  C6. For every run, the acceleration at index \<open>i\<close> is
  \<open>(v[i+s] - v[i-s]) / (t[i+s] - t[i-s])\<close> with \<open>s = window / 2\<close> in integer division; the
  indices below \<open>s\<close> and from \<open>N - s\<close> on produce no output point, and every point whose
  computed acceleration is exactly 0 is left out. The output has one point for each index
  \<open>s \<le> i < N - s\<close> with a non-zero acceleration, in the order of the indices; the six
  values of the point (line 76) are the time, the voltage, the position and the velocity
  of row \<open>i\<close>, that acceleration, and a cosine of 0.
\<close>

theorem ComputeAcceleration_stencil:
  assumes "0 \<le> window"
    and "ComputeAcceleration Voltage Position Velocity data window = Inr out"
  shows "let s = nat (window div 2);
             a = (\<lambda>i. ((data ! (i + s)) ! Velocity - (data ! (i - s)) ! Velocity) /
                       ((data ! (i + s)) ! 0 - (data ! (i - s)) ! 0))
         in map (\<lambda>pt. (timestamp pt, voltage pt, position pt, velocity pt,
                        acceleration pt, cos_field pt)) out
              = map (\<lambda>i. (data ! i ! 0, data ! i ! Voltage, data ! i ! Position,
                           data ! i ! Velocity, a i, 0))
                  (filter (\<lambda>i. a i \<noteq> 0) [s ..< length data - s])
            \<and> list_all (\<lambda>pt. acceleration pt \<noteq> 0) out"
proof -
  have step: "size_t_of_int (window sdiv 2) = nat (window div 2)"
    using assms(1) by (simp add: sdiv_two_nonneg size_t_of_int_nonneg)
  from assms(2) have loop:
    "ComputeAcceleration_loop Voltage Position Velocity data (nat (window div 2))
       (nat (window div 2)) [] = Inr out"
    by (simp add: ComputeAcceleration_def Let_def step split: if_splits)
  have out: "out = map (\<lambda>j. make_prepared Voltage Position Velocity (data ! j)
                    (accel_at Velocity data (nat (window div 2)) j))
           (filter (\<lambda>j. accel_at Velocity data (nat (window div 2)) j \<noteq> 0)
              [nat (window div 2) ..< length data - nat (window div 2)])"
    using ComputeAcceleration_loop_result [OF loop] by simp
  have nz: "list_all (\<lambda>pt. acceleration pt \<noteq> 0) out"
    by (subst out) (simp add: list_all_iff make_prepared_def)
  have fields: "map (\<lambda>pt. (timestamp pt, voltage pt, position pt, velocity pt,
                            acceleration pt, cos_field pt)) out
      = map (\<lambda>j. (data ! j ! 0, data ! j ! Voltage, data ! j ! Position, data ! j ! Velocity,
                   accel_at Velocity data (nat (window div 2)) j, 0))
          (filter (\<lambda>j. accel_at Velocity data (nat (window div 2)) j \<noteq> 0)
             [nat (window div 2) ..< length data - nat (window div 2)])"
    by (subst out) (simp add: make_prepared_def o_def)
  from fields nz show ?thesis
    by (simp add: Let_def accel_at_def)
qed

theorem ComputeAcceleration_stencil_witness:
  "(0::int) \<le> 3 \<and>
   ComputeAcceleration 1 2 3 run5 3 =
     Inr [\<lparr>timestamp = 1, voltage = 1, position = 1, velocity = 1, dt = 0,
           acceleration = 1, cos_field = 0\<rparr>,
          \<lparr>timestamp = 3, voltage = 1, position = 4, velocity = 1, dt = 0,
           acceleration = 3 / 2, cos_field = 0\<rparr>] \<and>
   [(1, 1, 1, 1, 1, 0), (3, 1, 4, 1, 3 / 2, 0)] =
     map (\<lambda>i. (run5 ! i ! 0, run5 ! i ! 1, run5 ! i ! 2, run5 ! i ! 3,
                (run5 ! (i + 1) ! 3 - run5 ! (i - 1) ! 3) /
                (run5 ! (i + 1) ! 0 - run5 ! (i - 1) ! 0), 0::real))
       (filter (\<lambda>i. (run5 ! (i + 1) ! 3 - run5 ! (i - 1) ! 3) /
                      (run5 ! (i + 1) ! 0 - run5 ! (i - 1) ! 0) \<noteq> 0) [1 ..< 4])"
proof -
  have ev: "ComputeAcceleration 1 2 3 run5 3 =
     Inr [\<lparr>timestamp = 1, voltage = 1, position = 1, velocity = 1, dt = 0,
           acceleration = 1, cos_field = 0\<rparr>,
          \<lparr>timestamp = 3, voltage = 1, position = 4, velocity = 1, dt = 0,
           acceleration = 3 / 2, cos_field = 0\<rparr>]"
    by (simp add: ComputeAcceleration_def run5_def size_t_of_int_def signed_divide_int_def
        ComputeAcceleration_loop.simps accel_at_def make_prepared_def)
  have len: "length run5 = 5" by (simp add: run5_def)
  from ComputeAcceleration_stencil [OF _ ev] len ev show ?thesis
    by (simp add: Let_def)
qed

text \<open>
  A run longer than the window whose velocities are all the same: every acceleration is 0
  and the output is empty, without an error.
\<close>

lemma ComputeAcceleration_empty_output:
  "ComputeAcceleration 1 2 3 [[0, 1, 0, 5], [1, 1, 1, 5], [2, 1, 3, 5], [3, 1, 4, 5]] 3 = Inr []"
  by (simp add: ComputeAcceleration_def size_t_of_int_def signed_divide_int_def
      ComputeAcceleration_loop.simps accel_at_def)

text \<open>
  A negative window becomes a size of at least \<open>2^63\<close>, above the size of any vector: the
  function throws whatever the run.
\<close>

lemma ComputeAcceleration_negative_window:
  assumes "window < 0" and "int (length data) \<le> 2 ^ 64 + window"
  shows "ComputeAcceleration Voltage Position Velocity data window = Inl InsufficientData"
proof -
  from assms(2) have "length data \<le> nat (2 ^ 64 + window)" by linarith
  with assms(1) show ?thesis
    by (simp add: ComputeAcceleration_def Let_def size_t_of_int_def)
qed

text \<open>
  C10. \<open>ComputeAcceleration\<close> fails with the insufficient-data error if and only if the
  length of the run is at most the window size (a non-negative window, as the settings
  have it): a run of exactly \<open>window\<close> samples is rejected, and a longer run never raises
  this error.
\<close>

theorem ComputeAcceleration_insufficient_iff:
  assumes "0 \<le> window"
  shows "ComputeAcceleration Voltage Position Velocity data window = Inl InsufficientData
         \<longleftrightarrow> int (length data) \<le> window"
  using assms ComputeAcceleration_loop_not_insufficient
  by (auto simp: ComputeAcceleration_def Let_def size_t_of_int_nonneg)

theorem ComputeAcceleration_insufficient_iff_witness:
  "(0::int) \<le> 3 \<and>
   ComputeAcceleration 1 2 3 (take 3 run4) 3 = Inl InsufficientData \<and>
   int (length (take 3 run4)) \<le> 3 \<and>
   ComputeAcceleration 1 2 3 run4 3 \<noteq> Inl InsufficientData \<and>
   \<not> int (length run4) \<le> 3"
  using ComputeAcceleration_insufficient_iff [of 3 1 2 3 "take 3 run4"]
    ComputeAcceleration_insufficient_iff [of 3 1 2 3 run4]
  by (simp add: run4_def)


section \<open>CalculateTrackWidth\<close>

text \<open>
  C7. For all wheel deltas \<open>l\<close>, \<open>r\<close> and every heading delta \<open>h\<close> with \<open>|h| \<ge> \<epsilon>\<close>,
  \<open>CalculateTrackWidth(l, r, h) = (|l| + |r|) / |h|\<close>, and the result is the same when
  \<open>l\<close>, \<open>r\<close> and \<open>h\<close> are all negated; with \<open>|h| < \<epsilon>\<close> the function fails with
  \<open>ZeroHeadingChange\<close>. (\<open>\<epsilon>\<close> is positive.)
\<close>

theorem CalculateTrackWidth_formula:
  assumes "0 < eps"
  shows "(eps \<le> \<bar>h\<bar> \<longrightarrow>
            CalculateTrackWidth eps l r h = Inr ((\<bar>l\<bar> + \<bar>r\<bar>) / \<bar>h\<bar>) \<and>
            CalculateTrackWidth eps (- l) (- r) (- h) = CalculateTrackWidth eps l r h) \<and>
         (\<bar>h\<bar> < eps \<longrightarrow> CalculateTrackWidth eps l r h = Inl ZeroHeadingChange)"
  by (simp add: CalculateTrackWidth_def)

theorem CalculateTrackWidth_formula_witness:
  "(0::real) < 1 / 1000000 \<and> 1 / 1000000 \<le> \<bar>1::real\<bar> \<and>
   CalculateTrackWidth (1 / 1000000) 1 (- 1) 1 = Inr 2 \<and>
   CalculateTrackWidth (1 / 1000000) (- 1) (- (- 1)) (- 1) = Inr 2 \<and>
   \<bar>0::real\<bar> < 1 / 1000000 \<and>
   CalculateTrackWidth (1 / 1000000) 1 (- 1) 0 = Inl ZeroHeadingChange"
  using CalculateTrackWidth_formula [of "1 / 1000000" 1 1 "- 1"]
    CalculateTrackWidth_formula [of "1 / 1000000" 0 1 "- 1"]
  by simp

section \<open>ApplyMedianFilter\<close>

lemma length_filter_sort: "length (filter P (sort xs)) = length (filter P xs)"
  by (simp add: filter_sort)

text \<open>
  The median of a window of \<open>2k + 1\<close> values is one of them, with at least \<open>k + 1\<close> values
  not above it and at least \<open>k + 1\<close> values not below it.
\<close>

lemma median_is_middle:
  fixes xs :: "real list"
  assumes "length xs = 2 * k + 1"
  shows "median xs \<in> set xs \<and>
         k < length (filter (\<lambda>x. x \<le> median xs) xs) \<and>
         k < length (filter (\<lambda>x. median xs \<le> x) xs)"
proof -
  define s where "s = sort xs"
  have len: "length s = 2 * k + 1" and sorted: "sorted s" and set: "set s = set xs"
    using assms by (simp_all add: s_def)
  have m: "median xs = s ! k" using assms by (simp add: median_def s_def)
  have mem: "s ! k \<in> set xs" using len set nth_mem [of k s] by simp
  have low: "\<forall>x \<in> set (take (k + 1) s). x \<le> s ! k"
  proof
    fix x assume "x \<in> set (take (k + 1) s)"
    then obtain i where "i < k + 1" "i < length s" "x = s ! i"
      by (auto simp: in_set_conv_nth)
    then show "x \<le> s ! k" using sorted len by (simp add: sorted_nth_mono)
  qed
  have high: "\<forall>x \<in> set (drop k s). s ! k \<le> x"
  proof
    fix x assume "x \<in> set (drop k s)"
    then obtain i where "i < length s - k" "x = s ! (k + i)"
      by (auto simp: in_set_conv_nth)
    then show "s ! k \<le> x" using sorted len by (simp add: sorted_nth_mono)
  qed
  have "length (filter (\<lambda>x. x \<le> s ! k) s)
          = length (filter (\<lambda>x. x \<le> s ! k) (take (k + 1) s @ drop (k + 1) s))"
    by simp
  also have "\<dots> \<ge> length (filter (\<lambda>x. x \<le> s ! k) (take (k + 1) s))"
    unfolding filter_append by simp
  finally have "length (filter (\<lambda>x. x \<le> s ! k) s) \<ge> length (take (k + 1) s)"
    using low by (simp add: filter_id_conv [THEN iffD2])
  then have c1: "k < length (filter (\<lambda>x. x \<le> s ! k) s)" using len by simp
  have "length (filter (\<lambda>x. s ! k \<le> x) s)
          = length (filter (\<lambda>x. s ! k \<le> x) (take k s @ drop k s))"
    by simp
  also have "\<dots> \<ge> length (filter (\<lambda>x. s ! k \<le> x) (drop k s))"
    unfolding filter_append by simp
  finally have "length (filter (\<lambda>x. s ! k \<le> x) s) \<ge> length (drop k s)"
    using high by (simp add: filter_id_conv [THEN iffD2])
  then have c2: "k < length (filter (\<lambda>x. s ! k \<le> x) s)" using len by simp
  from mem c1 c2 show ?thesis
    by (simp add: m s_def length_filter_sort)
qed





section \<open>Calculate\<close>

text \<open>
  C1 as stated fails for an elevator. With a fit that answers the vector 1, 2, 3, 4 and
  feedback computations that answer the \<open>Kv\<close> and \<open>Ka\<close> they are given, \<open>Calculate\<close> hands
  over 2 and 3, the second and third entries, where the table of section 4.C has \<open>Kv\<close>
  and \<open>Ka\<close> as the third and fourth entries, 3 and 4.
\<close>

theorem Calculate_table_counterexample:
  "map_sum id fst (Calculate test_externals elevator_manager)
     = Inr (([1, 2, 3, 4], 0, 1), (2, 3), None) \<and>
   (table_Kv kElevator [1, 2, 3, 4], table_Ka kElevator [1, 2, 3, 4]) = (3, 4)"
  by (simp add: Calculate_def test_externals_def elevator_manager_def fresh_manager_def
      test_settings_def feedback_probe_def conversion_factor_def table_Kv_def table_Ka_def
      table_Kv_index_def table_Ka_index_def Let_def)

text \<open>
  C1, amended. For every analysis type, \<open>Calculate\<close> invokes the feedforward analysis on
  the filtered dataset that the settings select (the pair of its quasistatic and dynamic
  points) with the analysis type, and then the position or the velocity feedback
  computation, as the settings say, on the first three entries of the fitted vector as
  \<open>Ks\<close>, \<open>Kv\<close>, \<open>Ka\<close>, in this order; it returns the fit, the feedback gains and the track
  width. For the types with three coefficients (Simple and the two drivetrains) the second
  and third entries are the \<open>Kv\<close> and \<open>Ka\<close> of the table of section 4.C.
\<close>

theorem Calculate_passes_first_three:
  assumes "Calculate ext m = Inr (g, m')"
  shows "dataset (m_settings m) < length (ext_kDatasets ext) \<and>
         (\<exists>beta rmse r2 fb.
            ext_CalculateFeedforwardGains ext
              (case m_filteredDatasets m (ext_kDatasets ext ! dataset (m_settings m)) of
                 None \<Rightarrow> ([], []) | Some s \<Rightarrow> s)
              (m_type m) = Inr (beta, rmse, r2) \<and>
            3 \<le> length beta \<and>
            (if type (m_settings m) = kPosition
             then ext_CalculatePositionFeedbackGains ext (preset (m_settings m))
                    (lqr (m_settings m)) \<lparr>Ks = beta ! 0, Kv = beta ! 1, Ka = beta ! 2\<rparr>
                    (conversion_factor m)
             else ext_CalculateVelocityFeedbackGains ext (preset (m_settings m))
                    (lqr (m_settings m)) \<lparr>Ks = beta ! 0, Kv = beta ! 1, Ka = beta ! 2\<rparr>
                    (conversion_factor m)) = Inr fb \<and>
            g = ((beta, rmse, r2), fb, m_trackWidth m) \<and>
            (m_type m \<noteq> kElevator \<and> m_type m \<noteq> kArm \<longrightarrow>
               beta ! 1 = table_Kv (m_type m) beta \<and> beta ! 2 = table_Ka (m_type m) beta))"
  using assms
  by (auto simp: Calculate_def Let_def bindE_Inr_iff table_Kv_def table_Ka_def
      table_Kv_index_def table_Ka_index_def split: if_splits)

theorem Calculate_passes_first_three_witness:
  "map_sum id fst (Calculate test_externals (elevator_manager\<lparr>m_type := kSimple\<rparr>))
     = Inr (([1, 2, 3, 4], 0, 1), (2, 3), None) \<and>
   kSimple \<noteq> kElevator \<and> kSimple \<noteq> kArm \<and>
   [1, 2, 3, 4] ! 1 = table_Kv kSimple [1, 2, 3, 4] \<and>
   [1, 2, 3, 4] ! 2 = table_Ka kSimple [1, 2, 3, 4]"
proof -
  let ?m = "elevator_manager\<lparr>m_type := kSimple\<rparr>"
  have ev: "map_sum id fst (Calculate test_externals ?m)
              = Inr (([1, 2, 3, 4], 0, 1), (2, 3), None)"
    by (simp add: Calculate_def test_externals_def elevator_manager_def fresh_manager_def
        test_settings_def feedback_probe_def conversion_factor_def Let_def)
  then obtain m' where c:
    "Calculate test_externals ?m = Inr ((([1, 2, 3, 4], 0, 1), (2, 3), None), m')"
    by (cases "Calculate test_externals ?m") auto
  have ty: "kSimple \<noteq> kElevator" "kSimple \<noteq> kArm"
    by (simp_all add: kSimple_def kElevator_def kArm_def)
  from Calculate_passes_first_three [OF c] ty ev show ?thesis
    by simp
qed


section \<open>The preparation of the datasets\<close>

lemma store_datasets_combined:
  "combined_is_forward_then_backward (store_datasets ds prefix sf sb ff fb) prefix"
  by (simp add: combined_is_forward_then_backward_def store_datasets_def Concatenate_append)

lemma store_datasets_other:
  assumes "prefix' @ ''Forward'' \<notin>
             {prefix @ ''Forward'', prefix @ ''Backward'', prefix @ ''Combined''}"
    and "prefix' @ ''Backward'' \<notin>
             {prefix @ ''Forward'', prefix @ ''Backward'', prefix @ ''Combined''}"
    and "prefix' @ ''Combined'' \<notin>
             {prefix @ ''Forward'', prefix @ ''Backward'', prefix @ ''Combined''}"
  shows "combined_is_forward_then_backward (store_datasets ds prefix sf sb ff fb) prefix'
         = combined_is_forward_then_backward ds prefix'"
  using assms by (simp add: combined_is_forward_then_backward_def store_datasets_def)

lemma PrepareGeneralData_combined:
  assumes "PrepareGeneralData ext json settings factor unit rawDatasets filteredDatasets
             minStepTime = Inr p"
  shows "combined_is_forward_then_backward (p_rawDatasets p) [] \<and>
         combined_is_forward_then_backward (p_filteredDatasets p) []"
  using assms
  by (auto simp: PrepareGeneralData_def Let_def bindE_Inr_iff store_datasets_combined
      split: prod.splits)

lemma PrepareAngularDrivetrainData_combined:
  assumes "PrepareAngularDrivetrainData ext json settings factor rawDatasets filteredDatasets
             minStepTime = Inr (p, tw)"
  shows "combined_is_forward_then_backward (p_filteredDatasets p) []"
  using assms
  by (auto simp: PrepareAngularDrivetrainData_def Let_def bindE_Inr_iff store_datasets_combined
      split: prod.splits)

lemma PrepareLinearDrivetrainData_combined:
  assumes "PrepareLinearDrivetrainData ext json settings factor rawDatasets filteredDatasets
             minStepTime = Inr p"
  shows "combined_is_forward_then_backward (p_rawDatasets p) [] \<and>
         combined_is_forward_then_backward (p_rawDatasets p) ''Left '' \<and>
         combined_is_forward_then_backward (p_rawDatasets p) ''Right '' \<and>
         combined_is_forward_then_backward (p_filteredDatasets p) [] \<and>
         combined_is_forward_then_backward (p_filteredDatasets p) ''Left '' \<and>
         combined_is_forward_then_backward (p_filteredDatasets p) ''Right ''"
  using assms
  by (auto simp: PrepareLinearDrivetrainData_def Let_def bindE_Inr_iff store_datasets_combined
      store_datasets_other split: prod.splits)

text \<open>
  What the angular preparation leaves in the two dataset maps: the raw one as it was, the
  filtered one with the three keys stored.
\<close>

lemma store_datasets_frame:
  "dom (store_datasets ds [] sf sb ff fb) = dom ds \<union> {''Forward'', ''Backward'', ''Combined''}"
  "key \<notin> {''Forward'', ''Backward'', ''Combined''}
     \<Longrightarrow> store_datasets ds [] sf sb ff fb key = ds key"
  by (auto simp: store_datasets_def)

lemma PrepareAngularDrivetrainData_maps:
  assumes "PrepareAngularDrivetrainData ext json settings factor rawDatasets filteredDatasets
             minStepTime = Inr (p, tw)"
  shows "p_rawDatasets p = rawDatasets"
    and "dom (p_filteredDatasets p)
           = dom filteredDatasets \<union> {''Forward'', ''Backward'', ''Combined''}"
    and "key \<notin> {''Forward'', ''Backward'', ''Combined''}
           \<Longrightarrow> p_filteredDatasets p key = filteredDatasets key"
proof -
  from assms obtain sf sb ff fb where
    "p_rawDatasets p = rawDatasets \<and>
     p_filteredDatasets p = store_datasets filteredDatasets [] sf sb ff fb"
    by (auto simp: PrepareAngularDrivetrainData_def Let_def bindE_Inr_iff split: prod.splits)
  then show "p_rawDatasets p = rawDatasets"
    and "dom (p_filteredDatasets p)
           = dom filteredDatasets \<union> {''Forward'', ''Backward'', ''Combined''}"
    and "key \<notin> {''Forward'', ''Backward'', ''Combined''}
           \<Longrightarrow> p_filteredDatasets p key = filteredDatasets key"
    by (simp_all add: store_datasets_frame)
qed

lemma type_distinct:
  "kDrivetrain \<noteq> kDrivetrainAngular" "kSimple \<noteq> kDrivetrain" "kSimple \<noteq> kDrivetrainAngular"
  "kElevator \<noteq> kDrivetrain" "kElevator \<noteq> kDrivetrainAngular"
  "kArm \<noteq> kDrivetrain" "kArm \<noteq> kDrivetrainAngular"
  by (simp_all add: kDrivetrain_def kDrivetrainAngular_def kSimple_def kElevator_def kArm_def)

subsection \<open>The example logs are prepared without an error\<close>

lemmas evaluation =
  kJsonDataKeys_def for_each_point_def run_of_def filtered_acceleration_def
  ComputeAcceleration_def ComputeAcceleration_loop.simps accel_at_def make_prepared_def
  size_t_of_int_def signed_divide_int_def CalculateCosine_def GetMaxTime_def run_duration_def
  start_times_def first_timestamp_def store_datasets_def copysign_def
  test_externals_def TrimQuasistaticData_def ApplyMedianFilter_def median_def
  step_trim_instance_def CalculateTrackWidth_def Let_def upt_rec test_settings_def

lemma general_example_prepared:
  "\<exists>p. PrepareGeneralData test_externals general_json test_settings 1 ''Meters''
          Map.empty Map.empty 100000 = Inr p"
proof -
  have "case PrepareGeneralData test_externals general_json test_settings 1 ''Meters''
               Map.empty Map.empty 100000 of Inl e \<Rightarrow> False | Inr p \<Rightarrow> True"
    by (simp add: PrepareGeneralData_def general_trimmed_def general_point_def
        general_json_def evaluation)
  then show ?thesis by (simp split: sum.splits)
qed

lemma linear_example_prepared:
  "\<exists>p. PrepareLinearDrivetrainData test_externals drivetrain_json test_settings 1
          Map.empty Map.empty 100000 = Inr p"
proof -
  have "case PrepareLinearDrivetrainData test_externals drivetrain_json test_settings 1
               Map.empty Map.empty 100000 of Inl e \<Rightarrow> False | Inr p \<Rightarrow> True"
    by (simp add: PrepareLinearDrivetrainData_def linear_trimmed_def linear_point_def
        raw_side_def filtered_side_def trim_four_def drivetrain_json_def evaluation)
  then show ?thesis by (simp split: sum.splits)
qed

lemma angular_example_prepared:
  "\<exists>p tw. PrepareAngularDrivetrainData test_externals drivetrain_json test_settings 1
          Map.empty Map.empty 100000 = Inr (p, tw)"
proof -
  have "case PrepareAngularDrivetrainData test_externals drivetrain_json test_settings 1
               Map.empty Map.empty 100000 of Inl e \<Rightarrow> False | Inr p \<Rightarrow> True"
    by (simp add: PrepareAngularDrivetrainData_def angular_trimmed_def angular_point_def
        track_width_of_def drivetrain_json_def evaluation)
  then show ?thesis by (simp split: sum.splits)
qed

lemma general_example_PrepareData:
  "\<exists>m'. PrepareData test_externals (fresh_manager general_json kSimple ''Meters'') = Inr m'"
  using general_example_prepared
  by (auto simp: PrepareData_def fresh_manager_def type_distinct)

lemma linear_example_PrepareData:
  "\<exists>m'. PrepareData test_externals (fresh_manager drivetrain_json kDrivetrain ''Meters'') = Inr m'"
  using linear_example_prepared
  by (auto simp: PrepareData_def fresh_manager_def)

lemma angular_example_PrepareData:
  "\<exists>m'. PrepareData test_externals
           (fresh_manager drivetrain_json kDrivetrainAngular ''Radians'') = Inr m'"
  using angular_example_prepared
  by (auto simp: PrepareData_def fresh_manager_def type_distinct type_distinct [symmetric])


lemma fresh_manager_fields:
  "m_type (fresh_manager j t u) = t"
  "m_rawDatasets (fresh_manager j t u) = Map.empty"
  "m_filteredDatasets (fresh_manager j t u) = Map.empty"
  by (simp_all add: fresh_manager_def)

text \<open>
  C5. For every prepared dataset family (raw and filtered, for every mechanism type), the
  Combined dataset is the Forward one followed by the Backward one, for the quasistatic
  and for the dynamic points, and the length of Combined is the sum of the two lengths. The
  families are the filtered one for every type, the raw one for the general mechanisms and
  the linear drivetrain (the angular preparation writes no raw dataset), and the Left and
  Right families of the linear drivetrain.
\<close>

theorem PrepareData_combined:
  assumes "PrepareData ext m = Inr m'"
  shows "combined_is_forward_then_backward (m_filteredDatasets m') [] \<and>
         (m_type m \<noteq> kDrivetrainAngular \<longrightarrow>
            combined_is_forward_then_backward (m_rawDatasets m') []) \<and>
         (m_type m = kDrivetrain \<longrightarrow>
            combined_is_forward_then_backward (m_rawDatasets m') ''Left '' \<and>
            combined_is_forward_then_backward (m_rawDatasets m') ''Right '' \<and>
            combined_is_forward_then_backward (m_filteredDatasets m') ''Left '' \<and>
            combined_is_forward_then_backward (m_filteredDatasets m') ''Right '')"
proof (cases "m_type m = kDrivetrain")
  case True
  with assms obtain p where
    "PrepareLinearDrivetrainData ext (m_json m) (m_settings m) (m_factor m)
       (m_rawDatasets m) (m_filteredDatasets m) (m_minDuration m) = Inr p"
    and "m' = commit m p"
    by (auto simp: PrepareData_def bindE_Inr_iff)
  with True PrepareLinearDrivetrainData_combined [of ext "m_json m" "m_settings m" "m_factor m"
      "m_rawDatasets m" "m_filteredDatasets m" "m_minDuration m" p]
  show ?thesis by (simp add: commit_def)
next
  case notLinear: False
  show ?thesis
  proof (cases "m_type m = kDrivetrainAngular")
    case True
    with assms notLinear obtain p tw where
      "PrepareAngularDrivetrainData ext (m_json m) (m_settings m) (m_factor m)
         (m_rawDatasets m) (m_filteredDatasets m) (m_minDuration m) = Inr (p, tw)"
      and "m' = (commit m p)\<lparr>m_trackWidth := Some tw\<rparr>"
      by (auto simp: PrepareData_def bindE_Inr_iff split: prod.splits)
    with True notLinear PrepareAngularDrivetrainData_combined [of ext "m_json m" "m_settings m"
        "m_factor m" "m_rawDatasets m" "m_filteredDatasets m" "m_minDuration m" p tw]
    show ?thesis by (simp add: commit_def)
  next
    case False
    with assms notLinear obtain p where
      "PrepareGeneralData ext (m_json m) (m_settings m) (m_factor m) (m_unit m)
         (m_rawDatasets m) (m_filteredDatasets m) (m_minDuration m) = Inr p"
      and "m' = commit m p"
      by (auto simp: PrepareData_def bindE_Inr_iff)
    with False notLinear PrepareGeneralData_combined [of ext "m_json m" "m_settings m"
        "m_factor m" "m_unit m" "m_rawDatasets m" "m_filteredDatasets m" "m_minDuration m" p]
    show ?thesis by (simp add: commit_def)
  qed
qed

theorem PrepareData_combined_witness:
  "(case PrepareData test_externals (fresh_manager general_json kSimple ''Meters'') of
      Inl e \<Rightarrow> False
    | Inr m' \<Rightarrow> combined_is_forward_then_backward (m_filteredDatasets m') [] \<and>
               combined_is_forward_then_backward (m_rawDatasets m') []) \<and>
   (case PrepareData test_externals (fresh_manager drivetrain_json kDrivetrain ''Meters'') of
      Inl e \<Rightarrow> False
    | Inr m' \<Rightarrow> combined_is_forward_then_backward (m_filteredDatasets m') [] \<and>
               combined_is_forward_then_backward (m_rawDatasets m') [] \<and>
               combined_is_forward_then_backward (m_rawDatasets m') ''Left '' \<and>
               combined_is_forward_then_backward (m_rawDatasets m') ''Right '' \<and>
               combined_is_forward_then_backward (m_filteredDatasets m') ''Left '' \<and>
               combined_is_forward_then_backward (m_filteredDatasets m') ''Right '') \<and>
   (case PrepareData test_externals
           (fresh_manager drivetrain_json kDrivetrainAngular ''Radians'') of
      Inl e \<Rightarrow> False
    | Inr m' \<Rightarrow> combined_is_forward_then_backward (m_filteredDatasets m') [])"
proof -
  obtain m1 where m1:
    "PrepareData test_externals (fresh_manager general_json kSimple ''Meters'') = Inr m1"
    using general_example_PrepareData by blast
  obtain m2 where m2:
    "PrepareData test_externals (fresh_manager drivetrain_json kDrivetrain ''Meters'') = Inr m2"
    using linear_example_PrepareData by blast
  obtain m3 where m3:
    "PrepareData test_externals (fresh_manager drivetrain_json kDrivetrainAngular ''Radians'')
       = Inr m3"
    using angular_example_PrepareData by blast
  from PrepareData_combined [OF m1] PrepareData_combined [OF m2] PrepareData_combined [OF m3]
  show ?thesis
    by (simp add: m1 m2 m3 fresh_manager_fields type_distinct)
qed

text \<open>
  C8. For the angular drivetrain, \<open>PrepareData\<close> writes no entry of the raw datasets: after
  a successful preparation the raw map is as it was before the call (empty on a fresh
  manager), and in the filtered map the keys Forward, Backward and Combined, and no other,
  are written.
\<close>

theorem PrepareData_angular_leaves_raw:
  assumes "m_type m = kDrivetrainAngular" and "PrepareData ext m = Inr m'"
  shows "m_rawDatasets m' = m_rawDatasets m \<and>
         dom (m_filteredDatasets m')
           = dom (m_filteredDatasets m) \<union> {''Forward'', ''Backward'', ''Combined''} \<and>
         (\<forall>key. key \<notin> {''Forward'', ''Backward'', ''Combined''}
                \<longrightarrow> m_filteredDatasets m' key = m_filteredDatasets m key)"
proof -
  from assms obtain p tw where p:
    "PrepareAngularDrivetrainData ext (m_json m) (m_settings m) (m_factor m)
       (m_rawDatasets m) (m_filteredDatasets m) (m_minDuration m) = Inr (p, tw)"
    and m': "m' = (commit m p)\<lparr>m_trackWidth := Some tw\<rparr>"
    by (auto simp: PrepareData_def bindE_Inr_iff type_distinct [symmetric] split: prod.splits)
  from PrepareAngularDrivetrainData_maps [OF p] show ?thesis
    by (simp add: m' commit_def)
qed

theorem PrepareData_angular_leaves_raw_witness:
  "m_type (fresh_manager drivetrain_json kDrivetrainAngular ''Radians'') = kDrivetrainAngular \<and>
   (case PrepareData test_externals
           (fresh_manager drivetrain_json kDrivetrainAngular ''Radians'') of
      Inl e \<Rightarrow> False
    | Inr m' \<Rightarrow> m_rawDatasets m' = Map.empty \<and>
               dom (m_filteredDatasets m') = {''Forward'', ''Backward'', ''Combined''})"
proof -
  let ?m = "fresh_manager drivetrain_json kDrivetrainAngular ''Radians''"
  have ty: "m_type ?m = kDrivetrainAngular" by (simp add: fresh_manager_fields)
  obtain m3 where m3: "PrepareData test_externals ?m = Inr m3"
    using angular_example_PrepareData by blast
  from PrepareData_angular_leaves_raw [OF ty m3] show ?thesis
    by (simp add: m3 fresh_manager_fields)
qed


section \<open>CalculateCosine\<close>

lemma CalculateCosine_other_unit:
  "unit \<notin> {''Radians'', ''Degrees'', ''Rotations''} \<Longrightarrow> CalculateCosine data unit = data"
  by (simp add: CalculateCosine_def)

lemma ComputeAcceleration_cos_zero:
  assumes "ComputeAcceleration Voltage Position Velocity data window = Inr out"
  shows "list_all (\<lambda>pt. cos_field pt = 0) out"
proof -
  from assms obtain step where
    "ComputeAcceleration_loop Voltage Position Velocity data step step [] = Inr out"
    by (auto simp: ComputeAcceleration_def Let_def split: if_splits)
  from ComputeAcceleration_loop_result [OF this] show ?thesis
    by (simp add: list_all_iff make_prepared_def)
qed

lemma filtered_acceleration_cos_zero:
  assumes "filtered_acceleration ext Voltage Position Velocity data window = Inr out"
  shows "list_all (\<lambda>pt. cos_field pt = 0) out"
  using assms ComputeAcceleration_cos_zero
  by (auto simp: filtered_acceleration_def bindE_Inr_iff)

lemma trim_keeps_cos_zero:
  assumes "trim_only_erases ext"
    and "ext_TrimStepVoltageData ext d s mn mx = Inr (d', s', mn')"
    and "list_all (\<lambda>pt. cos_field pt = 0) d"
  shows "list_all (\<lambda>pt. cos_field pt = 0) d'"
  using assms unfolding trim_only_erases_def list_all_iff by blast

lemma store_datasets_cos_zero:
  assumes "list_all (\<lambda>pt. cos_field pt = 0) sf" "list_all (\<lambda>pt. cos_field pt = 0) sb"
    "list_all (\<lambda>pt. cos_field pt = 0) ff" "list_all (\<lambda>pt. cos_field pt = 0) fb"
  shows "all_cos_zero (store_datasets ds [] sf sb ff fb) ''Forward'' \<and>
         all_cos_zero (store_datasets ds [] sf sb ff fb) ''Backward'' \<and>
         all_cos_zero (store_datasets ds [] sf sb ff fb) ''Combined''"
  using assms by (simp add: all_cos_zero_def store_datasets_def Concatenate_append)

lemma PrepareGeneralData_cos_zero:
  assumes unit: "unit \<notin> {''Radians'', ''Degrees'', ''Rotations''}"
    and trim: "trim_only_erases ext"
    and prep: "PrepareGeneralData ext json settings factor unit rawDatasets filteredDatasets
                 minStepTime = Inr p"
  shows "all_cos_zero (p_rawDatasets p) ''Forward'' \<and>
         all_cos_zero (p_rawDatasets p) ''Backward'' \<and>
         all_cos_zero (p_rawDatasets p) ''Combined'' \<and>
         all_cos_zero (p_filteredDatasets p) ''Forward'' \<and>
         all_cos_zero (p_filteredDatasets p) ''Backward'' \<and>
         all_cos_zero (p_filteredDatasets p) ''Combined''"
proof -
  let ?Z = "list_all (\<lambda>pt. cos_field pt = 0)"
  let ?w = "windowSize settings"
  from prep obtain data rawSf rawSb rawFf0 rawFb0 sf0 sb0 ff0 fb0 maxStepTime
    rawFf settings1 tempTime1 rawFb settings2 tempTime2 ff settings3 minStepTime1 fb settings4
    minStepTime2
    where "ComputeAcceleration 1 2 3 (run_of data ''slow-forward'') ?w = Inr rawSf"
      and "ComputeAcceleration 1 2 3 (run_of data ''slow-backward'') ?w = Inr rawSb"
      and "ComputeAcceleration 1 2 3 (run_of data ''fast-forward'') ?w = Inr rawFf0"
      and "ComputeAcceleration 1 2 3 (run_of data ''fast-backward'') ?w = Inr rawFb0"
      and "filtered_acceleration ext 1 2 3 (run_of data ''slow-forward'') ?w = Inr sf0"
      and "filtered_acceleration ext 1 2 3 (run_of data ''slow-backward'') ?w = Inr sb0"
      and "filtered_acceleration ext 1 2 3 (run_of data ''fast-forward'') ?w = Inr ff0"
      and "filtered_acceleration ext 1 2 3 (run_of data ''fast-backward'') ?w = Inr fb0"
      and "ext_TrimStepVoltageData ext rawFf0 settings 0 maxStepTime
             = Inr (rawFf, settings1, tempTime1)"
      and "ext_TrimStepVoltageData ext rawFb0 settings1 tempTime1 maxStepTime
             = Inr (rawFb, settings2, tempTime2)"
      and "ext_TrimStepVoltageData ext ff0 settings2 minStepTime maxStepTime
             = Inr (ff, settings3, minStepTime1)"
      and "ext_TrimStepVoltageData ext fb0 settings3 minStepTime1 maxStepTime
             = Inr (fb, settings4, minStepTime2)"
      and raw: "p_rawDatasets p = store_datasets rawDatasets [] rawSf rawSb rawFf rawFb"
      and filtered: "p_filteredDatasets p = store_datasets filteredDatasets [] sf0 sb0 ff fb"
    by (auto simp: PrepareGeneralData_def Let_def bindE_Inr_iff
        CalculateCosine_other_unit [OF unit] split: prod.splits)
  then have "?Z rawSf" "?Z rawSb" "?Z rawFf" "?Z rawFb" "?Z sf0" "?Z sb0" "?Z ff" "?Z fb"
    by (blast intro: ComputeAcceleration_cos_zero filtered_acceleration_cos_zero
        trim_keeps_cos_zero [OF trim])+
  then show ?thesis
    unfolding raw filtered by (intro conjI store_datasets_cos_zero [THEN conjunct1]
        store_datasets_cos_zero [THEN conjunct2, THEN conjunct1]
        store_datasets_cos_zero [THEN conjunct2, THEN conjunct2])
qed

lemma step_trim_instance_erases:
  assumes "step_trim_instance d s mn mx = Inr (d', s', mn')"
  shows "set d' \<subseteq> set d"
  using assms
  by (auto simp: step_trim_instance_def Let_def split: if_splits dest: set_takeWhileD)

lemma test_externals_trim_only_erases: "trim_only_erases test_externals"
  by (auto simp: trim_only_erases_def test_externals_def dest: step_trim_instance_erases)

text \<open>
  C9. For every unit string that is none of \<open>Radians\<close>, \<open>Degrees\<close>, \<open>Rotations\<close> (the
  linear units, for example), \<open>CalculateCosine\<close> leaves the \<open>cos\<close> field of every point as
  it is; \<open>ComputeAcceleration\<close> sets it to 0, so that every point that
  \<open>PrepareGeneralData\<close> stores for such a unit has the cosine 0 (with a step trim that only
  erases points).
\<close>

theorem CalculateCosine_other_units:
  assumes "unit \<notin> {''Radians'', ''Degrees'', ''Rotations''}"
  shows "CalculateCosine data unit = data \<and>
         (trim_only_erases ext \<and>
          PrepareGeneralData ext json settings factor unit rawDatasets filteredDatasets
            minStepTime = Inr p \<longrightarrow>
            all_cos_zero (p_rawDatasets p) ''Forward'' \<and>
            all_cos_zero (p_rawDatasets p) ''Backward'' \<and>
            all_cos_zero (p_rawDatasets p) ''Combined'' \<and>
            all_cos_zero (p_filteredDatasets p) ''Forward'' \<and>
            all_cos_zero (p_filteredDatasets p) ''Backward'' \<and>
            all_cos_zero (p_filteredDatasets p) ''Combined'')"
  using CalculateCosine_other_unit [OF assms] PrepareGeneralData_cos_zero [OF assms]
  by blast

theorem CalculateCosine_other_units_witness:
  "''Meters'' \<notin> {''Radians'', ''Degrees'', ''Rotations''} \<and>
   CalculateCosine [(velocity_point 1)\<lparr>cos_field := 1 / 2\<rparr>] ''Meters''
     = [(velocity_point 1)\<lparr>cos_field := 1 / 2\<rparr>] \<and>
   trim_only_erases test_externals \<and>
   (case PrepareGeneralData test_externals general_json test_settings 1 ''Meters''
           Map.empty Map.empty 100000 of
      Inl e \<Rightarrow> False
    | Inr p \<Rightarrow> all_cos_zero (p_rawDatasets p) ''Combined'' \<and>
              all_cos_zero (p_filteredDatasets p) ''Combined'')"
proof -
  have unit: "''Meters'' \<notin> {''Radians'', ''Degrees'', ''Rotations''}" by simp
  obtain p where p: "PrepareGeneralData test_externals general_json test_settings 1 ''Meters''
                       Map.empty Map.empty 100000 = Inr p"
    using general_example_prepared by blast
  from CalculateCosine_other_units [OF unit, of "[(velocity_point 1)\<lparr>cos_field := 1 / 2\<rparr>]"
      test_externals general_json test_settings 1 Map.empty Map.empty 100000 p]
    test_externals_trim_only_erases p unit
  show ?thesis by simp
qed


section \<open>The two sides of the linear drivetrain\<close>

lemma load_runs_four:
  assumes "load_runs S json kJsonDataKeys Map.empty = Inr data"
  shows "\<exists>sf sb ff fb. json ''slow-forward'' = Some sf \<and> json ''slow-backward'' = Some sb \<and>
           json ''fast-forward'' = Some ff \<and> json ''fast-backward'' = Some fb \<and>
           data = [''slow-forward'' \<mapsto> sf, ''slow-backward'' \<mapsto> sb,
                   ''fast-forward'' \<mapsto> ff, ''fast-backward'' \<mapsto> fb]"
  using assms
  by (auto simp: kJsonDataKeys_def split: option.splits if_splits)

text \<open>The loop of lines 355-364 on one row, column by column.\<close>

lemma linear_point_columns:
  "linear_point factor pt =
     pt[1 := (if pt ! 5 < 0 then - \<bar>pt ! 1\<bar> else \<bar>pt ! 1\<bar>),
        2 := (if pt ! 6 < 0 then - \<bar>pt ! 2\<bar> else \<bar>pt ! 2\<bar>),
        3 := pt ! 3 * factor, 4 := pt ! 4 * factor,
        5 := pt ! 5 * factor, 6 := pt ! 6 * factor]"
  by (simp add: linear_point_def copysign_def)

text \<open>The trim with the left columns followed by the trim with the right columns.\<close>

lemma TrimQuasistaticData_both:
  "TrimQuasistaticData eps 2 6 (TrimQuasistaticData eps 1 5 rows th) th =
     filter (\<lambda>pt. \<not> (\<bar>pt ! 5\<bar> < th \<or> \<bar>pt ! 1\<bar> < eps) \<and> \<not> (\<bar>pt ! 6\<bar> < th \<or> \<bar>pt ! 2\<bar> < eps))
       rows"
  by (simp add: TrimQuasistaticData_def)

lemma linear_trimmed_runs:
  assumes trim: "ext_TrimQuasistaticData ext =
                   (\<lambda>Voltage Velocity data threshold.
                      Inr (TrimQuasistaticData eps Voltage Velocity data threshold))"
    and data: "linear_trimmed ext json threshold factor = Inr data"
  shows "\<exists>slowF slowB fastF fastB.
           json ''slow-forward'' = Some slowF \<and> json ''slow-backward'' = Some slowB \<and>
           json ''fast-forward'' = Some fastF \<and> json ''fast-backward'' = Some fastB \<and>
           run_of data ''slow-forward'' =
             TrimQuasistaticData eps 2 6
               (TrimQuasistaticData eps 1 5 (map (linear_point factor) slowF) threshold) threshold \<and>
           run_of data ''slow-backward'' =
             TrimQuasistaticData eps 2 6
               (TrimQuasistaticData eps 1 5 (map (linear_point factor) slowB) threshold) threshold \<and>
           run_of data ''fast-forward'' = map (linear_point factor) fastF \<and>
           run_of data ''fast-backward'' = map (linear_point factor) fastB"
proof -
  from data obtain data0 where l: "load_runs 9 json kJsonDataKeys Map.empty = Inr data0"
    by (auto simp: linear_trimmed_def bindE_Inr_iff)
  from load_runs_four [OF l] obtain sf sb ff fb where
    j: "json ''slow-forward'' = Some sf" "json ''slow-backward'' = Some sb"
       "json ''fast-forward'' = Some ff" "json ''fast-backward'' = Some fb"
    and d0: "data0 = [''slow-forward'' \<mapsto> sf, ''slow-backward'' \<mapsto> sb,
                      ''fast-forward'' \<mapsto> ff, ''fast-backward'' \<mapsto> fb]"
    by blast
  from data l show ?thesis
    by (simp add: linear_trimmed_def trim Let_def j d0 for_each_point_def run_of_def)
       (auto simp: run_of_def)
qed

lemma raw_side_runs:
  assumes "raw_side Voltage Position Velocity data w = Inr (sf, sb, ff, fb)"
  shows "ComputeAcceleration Voltage Position Velocity (run_of data ''slow-forward'') w = Inr sf"
    and "ComputeAcceleration Voltage Position Velocity (run_of data ''slow-backward'') w = Inr sb"
    and "ComputeAcceleration Voltage Position Velocity (run_of data ''fast-forward'') w = Inr ff"
    and "ComputeAcceleration Voltage Position Velocity (run_of data ''fast-backward'') w = Inr fb"
  using assms by (auto simp: raw_side_def bindE_Inr_iff)

lemma filtered_side_runs:
  assumes "filtered_side ext Voltage Position Velocity data w = Inr (sf, sb, ff, fb)"
  shows "\<exists>m. ext_ApplyMedianFilter ext Velocity (run_of data ''slow-forward'') w = Inr m \<and>
              ComputeAcceleration Voltage Position Velocity m w = Inr sf"
    and "\<exists>m. ext_ApplyMedianFilter ext Velocity (run_of data ''slow-backward'') w = Inr m \<and>
              ComputeAcceleration Voltage Position Velocity m w = Inr sb"
    and "\<exists>m. ext_ApplyMedianFilter ext Velocity (run_of data ''fast-forward'') w = Inr m \<and>
              ComputeAcceleration Voltage Position Velocity m w = Inr ff"
    and "\<exists>m. ext_ApplyMedianFilter ext Velocity (run_of data ''fast-backward'') w = Inr m \<and>
              ComputeAcceleration Voltage Position Velocity m w = Inr fb"
  using assms by (auto simp: filtered_side_def filtered_acceleration_def bindE_Inr_iff)

lemma trim_four_calls:
  assumes "trim_four ext ffl0 ffr0 fbl0 fbr0 settings minTime maxStepTime
             = Inr (ffl, ffr, fbl, fbr, settings', minTime')"
  shows "\<exists>s mn s' mn'. ext_TrimStepVoltageData ext ffl0 s mn maxStepTime = Inr (ffl, s', mn')"
    and "\<exists>s mn s' mn'. ext_TrimStepVoltageData ext ffr0 s mn maxStepTime = Inr (ffr, s', mn')"
    and "\<exists>s mn s' mn'. ext_TrimStepVoltageData ext fbl0 s mn maxStepTime = Inr (fbl, s', mn')"
    and "\<exists>s mn s' mn'. ext_TrimStepVoltageData ext fbr0 s mn maxStepTime = Inr (fbr, s', mn')"
  using assms by (auto simp: trim_four_def bindE_Inr_iff split: prod.splits)

text \<open>
  C4, amended. For linear-drivetrain data, the sign alignment, the scaling and the
  acceleration computation of each side use that side's own voltage, position and velocity
  columns (1, 3 and 5 for the left side, 2, 4 and 6 for the right side): each voltage takes
  the sign of the velocity of its own side, positions and velocities are multiplied by the
  factor, and the quasistatic and the dynamic datasets of a side, raw and median-filtered,
  are the accelerations computed with the columns of that side, the dynamic ones after the
  step trim. The quasistatic trim is shared: it works on the rows that the two sides share,
  with the left columns and then with the right columns, so that the quasistatic datasets
  of both sides are computed from the rows that pass the thresholds of both sides, and a
  row erased for one side is erased for the other side too.
\<close>

theorem PrepareLinearDrivetrainData_shared_trim:
  assumes trim: "ext_TrimQuasistaticData ext =
                   (\<lambda>Voltage Velocity data threshold.
                      Inr (TrimQuasistaticData eps Voltage Velocity data threshold))"
    and prep: "PrepareLinearDrivetrainData ext json settings factor rawDatasets filteredDatasets
                 minStepTime = Inr p"
  shows "\<exists>slowF slowB fastF fastB.
           json ''slow-forward'' = Some slowF \<and> json ''slow-backward'' = Some slowB \<and>
           json ''fast-forward'' = Some fastF \<and> json ''fast-backward'' = Some fastB \<and>
           (let th = motionThreshold settings;
                w = windowSize settings;
                scaled = (\<lambda>pt. pt[1 := (if pt ! 5 < 0 then - \<bar>pt ! 1\<bar> else \<bar>pt ! 1\<bar>),
                                  2 := (if pt ! 6 < 0 then - \<bar>pt ! 2\<bar> else \<bar>pt ! 2\<bar>),
                                  3 := pt ! 3 * factor, 4 := pt ! 4 * factor,
                                  5 := pt ! 5 * factor, 6 := pt ! 6 * factor]);
                moves = (\<lambda>pt. \<not> (\<bar>pt ! 5\<bar> < th \<or> \<bar>pt ! 1\<bar> < eps) \<and>
                               \<not> (\<bar>pt ! 6\<bar> < th \<or> \<bar>pt ! 2\<bar> < eps));
                sf = filter moves (map scaled slowF);
                sb = filter moves (map scaled slowB);
                ff = map scaled fastF;
                fb = map scaled fastB;
                raw = (\<lambda>Voltage Position Velocity rows out.
                         ComputeAcceleration Voltage Position Velocity rows w = Inr out);
                filtered = (\<lambda>Voltage Position Velocity rows out.
                         \<exists>m. ext_ApplyMedianFilter ext Velocity rows w = Inr m \<and>
                             ComputeAcceleration Voltage Position Velocity m w = Inr out);
                trimmed = (\<lambda>acc out.
                         \<exists>s mn s' mn'. ext_TrimStepVoltageData ext acc s mn (p_maxStepTime p)
                                         = Inr (out, s', mn'));
                side = (\<lambda>Voltage Position Velocity name.
                  \<exists>rawSf rawSb rawFf rawFb filteredSf filteredSb filteredFf filteredFb.
                    p_rawDatasets p (name @ ''Forward'') = Some (rawSf, rawFf) \<and>
                    p_rawDatasets p (name @ ''Backward'') = Some (rawSb, rawFb) \<and>
                    p_filteredDatasets p (name @ ''Forward'') = Some (filteredSf, filteredFf) \<and>
                    p_filteredDatasets p (name @ ''Backward'') = Some (filteredSb, filteredFb) \<and>
                    raw Voltage Position Velocity sf rawSf \<and>
                    raw Voltage Position Velocity sb rawSb \<and>
                    filtered Voltage Position Velocity sf filteredSf \<and>
                    filtered Voltage Position Velocity sb filteredSb \<and>
                    (\<exists>acc. raw Voltage Position Velocity ff acc \<and> trimmed acc rawFf) \<and>
                    (\<exists>acc. raw Voltage Position Velocity fb acc \<and> trimmed acc rawFb) \<and>
                    (\<exists>acc. filtered Voltage Position Velocity ff acc \<and> trimmed acc filteredFf) \<and>
                    (\<exists>acc. filtered Voltage Position Velocity fb acc \<and> trimmed acc filteredFb))
            in side 1 3 5 ''Left '' \<and> side 2 4 6 ''Right '')"
proof -
  let ?w = "windowSize settings"
  let ?th = "motionThreshold settings"
  from prep obtain data rawSfl rawSbl rawFfl0 rawFbl0 rawSfr rawSbr rawFfr0 rawFbr0
    sfl sbl ffl0 fbl0 sfr sbr ffr0 fbr0 maxStepTime
    rawFfl rawFfr rawFbl rawFbr settings1 tempTime ffl ffr fbl fbr settings2 minStepTime1
    where data: "linear_trimmed ext json ?th factor = Inr data"
      and rl: "raw_side 1 3 5 data ?w = Inr (rawSfl, rawSbl, rawFfl0, rawFbl0)"
      and rr: "raw_side 2 4 6 data ?w = Inr (rawSfr, rawSbr, rawFfr0, rawFbr0)"
      and fl: "filtered_side ext 1 3 5 data ?w = Inr (sfl, sbl, ffl0, fbl0)"
      and fr: "filtered_side ext 2 4 6 data ?w = Inr (sfr, sbr, ffr0, fbr0)"
      and t1: "trim_four ext rawFfl0 rawFfr0 rawFbl0 rawFbr0 settings 0 maxStepTime
                 = Inr (rawFfl, rawFfr, rawFbl, rawFbr, settings1, tempTime)"
      and t2: "trim_four ext ffl0 ffr0 fbl0 fbr0 settings1 minStepTime maxStepTime
                 = Inr (ffl, ffr, fbl, fbr, settings2, minStepTime1)"
      and mx: "p_maxStepTime p = maxStepTime"
      and stored:
        "p_rawDatasets p ''Left Forward'' = Some (rawSfl, rawFfl)"
        "p_rawDatasets p ''Left Backward'' = Some (rawSbl, rawFbl)"
        "p_rawDatasets p ''Right Forward'' = Some (rawSfr, rawFfr)"
        "p_rawDatasets p ''Right Backward'' = Some (rawSbr, rawFbr)"
        "p_filteredDatasets p ''Left Forward'' = Some (sfl, ffl)"
        "p_filteredDatasets p ''Left Backward'' = Some (sbl, fbl)"
        "p_filteredDatasets p ''Right Forward'' = Some (sfr, ffr)"
        "p_filteredDatasets p ''Right Backward'' = Some (sbr, fbr)"
    by (auto simp: PrepareLinearDrivetrainData_def Let_def bindE_Inr_iff store_datasets_def
        split: prod.splits)
  from linear_trimmed_runs [OF trim data] obtain slowF slowB fastF fastB where
    j: "json ''slow-forward'' = Some slowF" "json ''slow-backward'' = Some slowB"
       "json ''fast-forward'' = Some fastF" "json ''fast-backward'' = Some fastB"
    and runs:
      "run_of data ''slow-forward'' =
         TrimQuasistaticData eps 2 6
           (TrimQuasistaticData eps 1 5 (map (linear_point factor) slowF) ?th) ?th"
      "run_of data ''slow-backward'' =
         TrimQuasistaticData eps 2 6
           (TrimQuasistaticData eps 1 5 (map (linear_point factor) slowB) ?th) ?th"
      "run_of data ''fast-forward'' = map (linear_point factor) fastF"
      "run_of data ''fast-backward'' = map (linear_point factor) fastB"
    by blast
  define scaled where "scaled = (\<lambda>pt::row.
      pt[1 := (if pt ! 5 < 0 then - \<bar>pt ! 1\<bar> else \<bar>pt ! 1\<bar>),
         2 := (if pt ! 6 < 0 then - \<bar>pt ! 2\<bar> else \<bar>pt ! 2\<bar>),
         3 := pt ! 3 * factor, 4 := pt ! 4 * factor,
         5 := pt ! 5 * factor, 6 := pt ! 6 * factor])"
  define moves where "moves = (\<lambda>pt::row.
      \<not> (\<bar>pt ! 5\<bar> < ?th \<or> \<bar>pt ! 1\<bar> < eps) \<and> \<not> (\<bar>pt ! 6\<bar> < ?th \<or> \<bar>pt ! 2\<bar> < eps))"
  have point: "linear_point factor = scaled"
    by (rule ext) (simp only: linear_point_columns scaled_def)
  have runs':
    "run_of data ''slow-forward'' = filter moves (map scaled slowF)"
    "run_of data ''slow-backward'' = filter moves (map scaled slowB)"
    "run_of data ''fast-forward'' = map scaled fastF"
    "run_of data ''fast-backward'' = map scaled fastB"
    by (simp_all only: runs TrimQuasistaticData_both point moves_def)
  note acc = raw_side_runs [OF rl, unfolded runs'] raw_side_runs [OF rr, unfolded runs']
    filtered_side_runs [OF fl, unfolded runs'] filtered_side_runs [OF fr, unfolded runs']
  note trims = trim_four_calls [OF t1] trim_four_calls [OF t2]
  have left:
    "\<exists>rawSf rawSb rawFf rawFb filteredSf filteredSb filteredFf filteredFb.
       p_rawDatasets p ''Left Forward'' = Some (rawSf, rawFf) \<and>
       p_rawDatasets p ''Left Backward'' = Some (rawSb, rawFb) \<and>
       p_filteredDatasets p ''Left Forward'' = Some (filteredSf, filteredFf) \<and>
       p_filteredDatasets p ''Left Backward'' = Some (filteredSb, filteredFb) \<and>
       ComputeAcceleration 1 3 5 (filter moves (map scaled slowF)) ?w = Inr rawSf \<and>
       ComputeAcceleration 1 3 5 (filter moves (map scaled slowB)) ?w = Inr rawSb \<and>
       (\<exists>m. ext_ApplyMedianFilter ext 5 (filter moves (map scaled slowF)) ?w = Inr m \<and>
            ComputeAcceleration 1 3 5 m ?w = Inr filteredSf) \<and>
       (\<exists>m. ext_ApplyMedianFilter ext 5 (filter moves (map scaled slowB)) ?w = Inr m \<and>
            ComputeAcceleration 1 3 5 m ?w = Inr filteredSb) \<and>
       (\<exists>acc. ComputeAcceleration 1 3 5 (map scaled fastF) ?w = Inr acc \<and>
          (\<exists>s mn s' mn'. ext_TrimStepVoltageData ext acc s mn maxStepTime
                           = Inr (rawFf, s', mn'))) \<and>
       (\<exists>acc. ComputeAcceleration 1 3 5 (map scaled fastB) ?w = Inr acc \<and>
          (\<exists>s mn s' mn'. ext_TrimStepVoltageData ext acc s mn maxStepTime
                           = Inr (rawFb, s', mn'))) \<and>
       (\<exists>acc. (\<exists>m. ext_ApplyMedianFilter ext 5 (map scaled fastF) ?w = Inr m \<and>
                   ComputeAcceleration 1 3 5 m ?w = Inr acc) \<and>
          (\<exists>s mn s' mn'. ext_TrimStepVoltageData ext acc s mn maxStepTime
                           = Inr (filteredFf, s', mn'))) \<and>
       (\<exists>acc. (\<exists>m. ext_ApplyMedianFilter ext 5 (map scaled fastB) ?w = Inr m \<and>
                   ComputeAcceleration 1 3 5 m ?w = Inr acc) \<and>
          (\<exists>s mn s' mn'. ext_TrimStepVoltageData ext acc s mn maxStepTime
                           = Inr (filteredFb, s', mn')))"
    using stored acc trims by blast
  have right:
    "\<exists>rawSf rawSb rawFf rawFb filteredSf filteredSb filteredFf filteredFb.
       p_rawDatasets p ''Right Forward'' = Some (rawSf, rawFf) \<and>
       p_rawDatasets p ''Right Backward'' = Some (rawSb, rawFb) \<and>
       p_filteredDatasets p ''Right Forward'' = Some (filteredSf, filteredFf) \<and>
       p_filteredDatasets p ''Right Backward'' = Some (filteredSb, filteredFb) \<and>
       ComputeAcceleration 2 4 6 (filter moves (map scaled slowF)) ?w = Inr rawSf \<and>
       ComputeAcceleration 2 4 6 (filter moves (map scaled slowB)) ?w = Inr rawSb \<and>
       (\<exists>m. ext_ApplyMedianFilter ext 6 (filter moves (map scaled slowF)) ?w = Inr m \<and>
            ComputeAcceleration 2 4 6 m ?w = Inr filteredSf) \<and>
       (\<exists>m. ext_ApplyMedianFilter ext 6 (filter moves (map scaled slowB)) ?w = Inr m \<and>
            ComputeAcceleration 2 4 6 m ?w = Inr filteredSb) \<and>
       (\<exists>acc. ComputeAcceleration 2 4 6 (map scaled fastF) ?w = Inr acc \<and>
          (\<exists>s mn s' mn'. ext_TrimStepVoltageData ext acc s mn maxStepTime
                           = Inr (rawFf, s', mn'))) \<and>
       (\<exists>acc. ComputeAcceleration 2 4 6 (map scaled fastB) ?w = Inr acc \<and>
          (\<exists>s mn s' mn'. ext_TrimStepVoltageData ext acc s mn maxStepTime
                           = Inr (rawFb, s', mn'))) \<and>
       (\<exists>acc. (\<exists>m. ext_ApplyMedianFilter ext 6 (map scaled fastF) ?w = Inr m \<and>
                   ComputeAcceleration 2 4 6 m ?w = Inr acc) \<and>
          (\<exists>s mn s' mn'. ext_TrimStepVoltageData ext acc s mn maxStepTime
                           = Inr (filteredFf, s', mn'))) \<and>
       (\<exists>acc. (\<exists>m. ext_ApplyMedianFilter ext 6 (map scaled fastB) ?w = Inr m \<and>
                   ComputeAcceleration 2 4 6 m ?w = Inr acc) \<and>
          (\<exists>s mn s' mn'. ext_TrimStepVoltageData ext acc s mn maxStepTime
                           = Inr (filteredFb, s', mn')))"
    using stored acc trims by blast
  show ?thesis
    apply (rule exI [of _ slowF], rule exI [of _ slowB])
    apply (rule exI [of _ fastF], rule exI [of _ fastB])
    apply (simp only: j Let_def mx scaled_def [symmetric] moves_def [symmetric])
    using left right apply simp
    done
qed

lemma linear_example_scaled:
  "case PrepareLinearDrivetrainData test_externals drivetrain_json test_settings 2
          Map.empty Map.empty 100000 of
     Inl e \<Rightarrow> False
   | Inr p \<Rightarrow>
       map_option (\<lambda>(q, d). (map timestamp q, map voltage q, map position q, map position d))
         (p_rawDatasets p ''Right Forward'')
         = Some ([1, 2, 4, 5], [1, 3 / 2, 5 / 2, 3], [3 / 5, 9 / 5, 31 / 5, 10],
                 [3, 10, 20, 32, 44]) \<and>
       map_option (\<lambda>(q, d). (map timestamp q, map voltage q, map position q, map position d))
         (p_rawDatasets p ''Left Backward'')
         = Some ([1, 2, 3, 4, 5], [- 1, - (3 / 2), - 2, - (5 / 2), - 3],
                 [- (2 / 5), - (6 / 5), - (12 / 5), - (21 / 5), - 7],
                 [- 2, - 8, - 16, - 26, - 36])"
  by (simp add: PrepareLinearDrivetrainData_def linear_trimmed_def linear_point_def
      raw_side_def filtered_side_def trim_four_def drivetrain_json_def evaluation)

theorem PrepareLinearDrivetrainData_shared_trim_witness:
  "ext_TrimQuasistaticData test_externals =
     (\<lambda>Voltage Velocity data threshold.
        Inr (TrimQuasistaticData (1 / 1000000) Voltage Velocity data threshold)) \<and>
   (case PrepareLinearDrivetrainData test_externals drivetrain_json test_settings 2
           Map.empty Map.empty 100000 of
      Inl e \<Rightarrow> False
    | Inr p \<Rightarrow>
        (\<exists>slowF slowB fastF fastB.
           drivetrain_json ''slow-forward'' = Some slowF \<and>
           drivetrain_json ''slow-backward'' = Some slowB \<and>
           drivetrain_json ''fast-forward'' = Some fastF \<and>
           drivetrain_json ''fast-backward'' = Some fastB \<and>
           (let th = motionThreshold test_settings;
                w = windowSize test_settings;
                scaled = (\<lambda>pt. pt[1 := (if pt ! 5 < 0 then - \<bar>pt ! 1\<bar> else \<bar>pt ! 1\<bar>),
                                  2 := (if pt ! 6 < 0 then - \<bar>pt ! 2\<bar> else \<bar>pt ! 2\<bar>),
                                  3 := pt ! 3 * 2, 4 := pt ! 4 * 2,
                                  5 := pt ! 5 * 2, 6 := pt ! 6 * 2]);
                moves = (\<lambda>pt. \<not> (\<bar>pt ! 5\<bar> < th \<or> \<bar>pt ! 1\<bar> < 1 / 1000000) \<and>
                               \<not> (\<bar>pt ! 6\<bar> < th \<or> \<bar>pt ! 2\<bar> < 1 / 1000000));
                sf = filter moves (map scaled slowF);
                sb = filter moves (map scaled slowB);
                ff = map scaled fastF;
                fb = map scaled fastB;
                raw = (\<lambda>Voltage Position Velocity rows out.
                         ComputeAcceleration Voltage Position Velocity rows w = Inr out);
                filtered = (\<lambda>Voltage Position Velocity rows out.
                         \<exists>m. ext_ApplyMedianFilter test_externals Velocity rows w = Inr m \<and>
                             ComputeAcceleration Voltage Position Velocity m w = Inr out);
                trimmed = (\<lambda>acc out.
                         \<exists>s mn s' mn'.
                           ext_TrimStepVoltageData test_externals acc s mn (p_maxStepTime p)
                             = Inr (out, s', mn'));
                side = (\<lambda>Voltage Position Velocity name.
                  \<exists>rawSf rawSb rawFf rawFb filteredSf filteredSb filteredFf filteredFb.
                    p_rawDatasets p (name @ ''Forward'') = Some (rawSf, rawFf) \<and>
                    p_rawDatasets p (name @ ''Backward'') = Some (rawSb, rawFb) \<and>
                    p_filteredDatasets p (name @ ''Forward'') = Some (filteredSf, filteredFf) \<and>
                    p_filteredDatasets p (name @ ''Backward'') = Some (filteredSb, filteredFb) \<and>
                    raw Voltage Position Velocity sf rawSf \<and>
                    raw Voltage Position Velocity sb rawSb \<and>
                    filtered Voltage Position Velocity sf filteredSf \<and>
                    filtered Voltage Position Velocity sb filteredSb \<and>
                    (\<exists>acc. raw Voltage Position Velocity ff acc \<and> trimmed acc rawFf) \<and>
                    (\<exists>acc. raw Voltage Position Velocity fb acc \<and> trimmed acc rawFb) \<and>
                    (\<exists>acc. filtered Voltage Position Velocity ff acc \<and> trimmed acc filteredFf) \<and>
                    (\<exists>acc. filtered Voltage Position Velocity fb acc \<and> trimmed acc filteredFb))
            in side 1 3 5 ''Left '' \<and> side 2 4 6 ''Right '')) \<and>
        map_option (\<lambda>(q, d). (map timestamp q, map voltage q, map position q, map position d))
          (p_rawDatasets p ''Right Forward'')
          = Some ([1, 2, 4, 5], [1, 3 / 2, 5 / 2, 3], [3 / 5, 9 / 5, 31 / 5, 10],
                  [3, 10, 20, 32, 44]) \<and>
        map_option (\<lambda>(q, d). (map timestamp q, map voltage q, map position q, map position d))
          (p_rawDatasets p ''Left Backward'')
          = Some ([1, 2, 3, 4, 5], [- 1, - (3 / 2), - 2, - (5 / 2), - 3],
                  [- (2 / 5), - (6 / 5), - (12 / 5), - (21 / 5), - 7],
                  [- 2, - 8, - 16, - 26, - 36]))"
proof -
  have trim: "ext_TrimQuasistaticData test_externals =
     (\<lambda>Voltage Velocity data threshold.
        Inr (TrimQuasistaticData (1 / 1000000) Voltage Velocity data threshold))"
    by (simp add: test_externals_def)
  obtain p where p: "PrepareLinearDrivetrainData test_externals drivetrain_json test_settings 2
                       Map.empty Map.empty 100000 = Inr p"
    using linear_example_scaled by (auto split: sum.splits)
  have concrete:
    "map_option (\<lambda>(q, d). (map timestamp q, map voltage q, map position q, map position d))
       (p_rawDatasets p ''Right Forward'')
       = Some ([1, 2, 4, 5], [1, 3 / 2, 5 / 2, 3], [3 / 5, 9 / 5, 31 / 5, 10],
               [3, 10, 20, 32, 44])"
    "map_option (\<lambda>(q, d). (map timestamp q, map voltage q, map position q, map position d))
       (p_rawDatasets p ''Left Backward'')
       = Some ([1, 2, 3, 4, 5], [- 1, - (3 / 2), - 2, - (5 / 2), - 3],
               [- (2 / 5), - (6 / 5), - (12 / 5), - (21 / 5), - 7],
               [- 2, - 8, - 16, - 26, - 36])"
    using linear_example_scaled by (simp_all only: p sum.case)
  from PrepareLinearDrivetrainData_shared_trim [OF trim p] trim concrete show ?thesis
    by (simp only: p sum.case simp_thms)
qed

text \<open>
  C4 as stated fails on \<open>drivetrain_json\<close>. The fourth row of the slow forward run passes
  the right side's threshold: trimmed with the right columns alone, the run keeps it and
  the right side has the points of 1 s to 5 s. The preparation erases the row with the left
  columns first, and the right side's dataset has the points of 1 s, 2 s, 4 s and 5 s.
\<close>

theorem linear_sides_share_trim_counterexample:
  "stalled_row \<in> set (map (linear_point 1) (run_of drivetrain_json ''slow-forward'')) \<and>
   stalled_row \<in> set (TrimQuasistaticData (1 / 1000000) 2 6
                        (map (linear_point 1) (run_of drivetrain_json ''slow-forward'')) (2 / 10)) \<and>
   map_sum id (map timestamp)
     (ComputeAcceleration 2 4 6
        (TrimQuasistaticData (1 / 1000000) 2 6
           (map (linear_point 1) (run_of drivetrain_json ''slow-forward'')) (2 / 10)) 3)
     = Inr [1, 2, 3, 4, 5] \<and>
   map_sum id (\<lambda>p. map_option (map timestamp) (quasistatic_of (p_rawDatasets p) ''Right Forward''))
     (PrepareLinearDrivetrainData test_externals drivetrain_json test_settings 1
        Map.empty Map.empty 100000)
     = Inr (Some [1, 2, 4, 5])"
  by (simp add: PrepareLinearDrivetrainData_def linear_trimmed_def linear_point_def
        raw_side_def filtered_side_def trim_four_def drivetrain_json_def evaluation
        stalled_row_def quasistatic_of_def)

section \<open>TrimStepVoltageData\<close>





end
